theory Spec2Isabelle
  imports Complex_Main
begin

section \<open>Strings as the JavaScript code uses them\<close>

text \<open>
  Punch names are JavaScript strings (\<^verbatim>\<open>'Jab'\<close>, \<^verbatim>\<open>'Left Hook'\<close>, ...), modelled as
  \<^typ>\<open>string\<close> over ASCII. \<open>str_includes s sub\<close> is \<^verbatim>\<open>s.includes(sub)\<close>: \<open>sub\<close> occurs
  as a contiguous part of \<open>s\<close>.
\<close>

fun str_includes :: "string \<Rightarrow> string \<Rightarrow> bool" where
  "str_includes [] sub = (sub = [])"
| "str_includes (c # cs) sub = (take (length sub) (c # cs) = sub \<or> str_includes cs sub)"

text \<open>\<^verbatim>\<open>toLowerCase()\<close> on ASCII letters.\<close>

definition lowerChar :: "char \<Rightarrow> char" where
  "lowerChar c =
     (case map_of (zip ''ABCDEFGHIJKLMNOPQRSTUVWXYZ'' ''abcdefghijklmnopqrstuvwxyz'') c of
        Some d \<Rightarrow> d
      | None \<Rightarrow> c)"

definition toLowerCase :: "string \<Rightarrow> string" where
  "toLowerCase s = map lowerChar s"

text \<open>The ASCII characters the regular expression class \<^verbatim>\<open>\s\<close> matches:
  space, tab, line feed, vertical tab, form feed, carriage return.\<close>

definition isSpace :: "char \<Rightarrow> bool" where
  "isSpace c = (c \<in> set [CHR '' '', CHR 0x09, CHR 0x0A, CHR 0x0B, CHR 0x0C, CHR 0x0D])"

text \<open>\<^verbatim>\<open>s.replace(/\s+/g, '')\<close> and \<^verbatim>\<open>s.replace(/\s/g, '')\<close>: both delete every
  whitespace character.\<close>

definition removeSpaces :: "string \<Rightarrow> string" where
  "removeSpaces s = filter (\<lambda>c. \<not> isSpace c) s"

text \<open>\<^verbatim>\<open>s.replace(pat, rep)\<close> with a string pattern: only the first occurrence of
  \<open>pat\<close> is replaced.\<close>

fun replaceFirst :: "string \<Rightarrow> string \<Rightarrow> string \<Rightarrow> string" where
  "replaceFirst pat rep [] = (if pat = [] then rep else [])"
| "replaceFirst pat rep (c # cs) =
     (if take (length pat) (c # cs) = pat then rep @ drop (length pat) (c # cs)
      else c # replaceFirst pat rep cs)"

section \<open>The punch classes\<close>

text \<open>The eight names of \<^verbatim>\<open>PUNCH_TYPES\<close> (punch.js, V2), in the order of the list.\<close>

datatype punchClass =
  Jab | Cross | LeftHook | RightHook | LeftUppercut | RightUppercut | LeftBody | RightBody

fun punchName :: "punchClass \<Rightarrow> string" where
  "punchName Jab = ''Jab''"
| "punchName Cross = ''Cross''"
| "punchName LeftHook = ''Left Hook''"
| "punchName RightHook = ''Right Hook''"
| "punchName LeftUppercut = ''Left Uppercut''"
| "punchName RightUppercut = ''Right Uppercut''"
| "punchName LeftBody = ''Left Body''"
| "punchName RightBody = ''Right Body''"

definition PUNCH_TYPES :: "punchClass list" where
  "PUNCH_TYPES =
     [Jab, Cross, LeftHook, RightHook, LeftUppercut, RightUppercut, LeftBody, RightBody]"

text \<open>\<^verbatim>\<open>PUNCH_TYPES\<close> of the arcade punch.js: six names.\<close>

definition PUNCH_TYPES_arcade :: "punchClass list" where
  "PUNCH_TYPES_arcade = [Jab, Cross, LeftHook, RightHook, LeftUppercut, RightUppercut]"

section \<open>PunchCooldown\<close>

text \<open>
  The object \<^verbatim>\<open>{cooldownMs, lastPunchTime, lastPunchType}\<close>; \<^verbatim>\<open>lastPunchType\<close> is
  \<^verbatim>\<open>null\<close> (\<open>None\<close>) until a punch fires. Times are readings of
  \<^verbatim>\<open>performance.now()\<close> in milliseconds; JavaScript numbers are modelled as reals.
\<close>

record cooldown =
  cooldownMs :: real
  lastPunchTime :: real
  lastPunchType :: "string option"

definition newPunchCooldown :: "real \<Rightarrow> cooldown" where
  "newPunchCooldown ms = \<lparr>cooldownMs = ms, lastPunchTime = 0, lastPunchType = None\<rparr>"

text \<open>
  \<^verbatim>\<open>canPunch\<close> of punch.js V2 (the strict rule set). \<open>now\<close> is the value of
  \<^verbatim>\<open>performance.now()\<close> the call reads. The result is the returned boolean and the
  object after the call.
\<close>

definition canPunch :: "cooldown \<Rightarrow> real \<Rightarrow> string \<Rightarrow> bool \<times> cooldown" where
  "canPunch cd now punchType =
     (let timeSinceLastPunch = now - lastPunchTime cd in
      if timeSinceLastPunch > cooldownMs cd \<or> lastPunchType cd \<noteq> Some punchType
      then (True, cd\<lparr>lastPunchTime := now, lastPunchType := Some punchType\<rparr>)
      else (False, cd))"

text \<open>
  \<^verbatim>\<open>canPunch\<close> of the arcade punch.js: the gate is keyed by hand. \<open>truthy\<close> is the
  JavaScript truth value of \<^verbatim>\<open>this.lastPunchType\<close> (\<^verbatim>\<open>null\<close> and the empty string are
  falsy).
\<close>

definition isLeftHand :: "string \<Rightarrow> bool" where
  "isLeftHand punchType = (str_includes punchType ''Left'' \<or> punchType = ''Jab'')"

definition truthy :: "string option \<Rightarrow> bool" where
  "truthy v = (case v of None \<Rightarrow> False | Some s \<Rightarrow> s \<noteq> [])"

definition canPunch_arcade :: "cooldown \<Rightarrow> real \<Rightarrow> string \<Rightarrow> bool \<times> cooldown" where
  "canPunch_arcade cd now punchType =
     (let isLeft = isLeftHand punchType;
          wasLeft = (case lastPunchType cd of
                       None \<Rightarrow> False
                     | Some t \<Rightarrow> t \<noteq> [] \<and> isLeftHand t);
          isSameHand = ((isLeft \<and> wasLeft) \<or>
                        (\<not> isLeft \<and> \<not> wasLeft \<and> truthy (lastPunchType cd)))
      in if \<not> isSameHand \<or> now - lastPunchTime cd > cooldownMs cd
         then (True, cd\<lparr>lastPunchTime := now, lastPunchType := Some punchType\<rparr>)
         else (False, cd))"

section \<open>detectPunch, punch.js V2 (strict rule set, eight classes)\<close>

text \<open>
  A landmark is a point with normalised coordinates. The frame is the array
  \<^verbatim>\<open>landmarks\<close> (\<open>None\<close> for \<^verbatim>\<open>null\<close>); its elements are landmark objects. The wrist
  speeds (the values \<^verbatim>\<open>speedTracker.updateSpeed\<close> returns) and the elbow angles (the
  values \<^verbatim>\<open>computeAngle\<close> returns) are inputs of the model: record \<open>measured\<close>.
\<close>

record landmark =
  xCoord :: real
  yCoord :: real

record measured =
  leftSpeed :: real
  rightSpeed :: real
  leftAngle :: real
  rightAngle :: real

text \<open>The per-frame quantities \<^verbatim>\<open>detectPunch\<close> derives before its decision chain.\<close>

record kinematics = measured +
  leftExtension :: real
  rightExtension :: real
  leftWristY :: real
  rightWristY :: real
  leftShoulderY :: real
  rightShoulderY :: real
  leftHipY :: real
  rightHipY :: real

text \<open>\<^verbatim>\<open>landmarks[i]\<close> with \<^verbatim>\<open>undefined\<close> (\<open>None\<close>) past the end of the array.\<close>

definition landmarkAt :: "landmark list \<Rightarrow> nat \<Rightarrow> landmark option" where
  "landmarkAt landmarks i = (if i < length landmarks then Some (landmarks ! i) else None)"

definition kinematicsOf :: "measured \<Rightarrow> landmark list \<Rightarrow> real \<Rightarrow> real \<Rightarrow> kinematics" where
  "kinematicsOf m landmarks width height =
     (let leftShoulder = landmarks ! 11;
          leftWrist = landmarks ! 15;
          rightShoulder = landmarks ! 12;
          rightWrist = landmarks ! 16;
          leftHip = landmarkAt landmarks 23;
          rightHip = landmarkAt landmarks 24
      in \<lparr>leftSpeed = leftSpeed m, rightSpeed = rightSpeed m,
          leftAngle = leftAngle m, rightAngle = rightAngle m,
          leftExtension = \<bar>xCoord leftWrist * width - xCoord leftShoulder * width\<bar>,
          rightExtension = \<bar>xCoord rightWrist * width - xCoord rightShoulder * width\<bar>,
          leftWristY = yCoord leftWrist * height,
          rightWristY = yCoord rightWrist * height,
          leftShoulderY = yCoord leftShoulder * height,
          rightShoulderY = yCoord rightShoulder * height,
          leftHipY = (case leftHip of Some p \<Rightarrow> yCoord p * height | None \<Rightarrow> 0),
          rightHipY = (case rightHip of Some p \<Rightarrow> yCoord p * height | None \<Rightarrow> 0)\<rparr>)"

definition MIN_SPEED :: real where "MIN_SPEED = 70"
definition MIN_EXTENSION :: real where "MIN_EXTENSION = 100"
definition MIN_STRAIGHT_ANGLE :: real where "MIN_STRAIGHT_ANGLE = 135"
definition MAX_HOOK_ANGLE :: real where "MAX_HOOK_ANGLE = 110"
definition MIN_UPPERCUT_SPEED :: real where "MIN_UPPERCUT_SPEED = 60"

text \<open>
  The decision chain. Each \<^verbatim>\<open>punchCooldown.canPunch(name)\<close> stands last in its
  \<^verbatim>\<open>&&\<close> chain, so it is called (and can change the cooldown object) only when the
  thresholds before it hold. Every call reads the clock; \<open>clock name\<close> is the reading
  of the call made for \<open>name\<close>. The result is the field \<^verbatim>\<open>punch\<close> of the returned
  object (\<open>None\<close> for \<^verbatim>\<open>null\<close>) and the cooldown object after the call.
\<close>

definition detectPunch ::
  "cooldown \<Rightarrow> (string \<Rightarrow> real) \<Rightarrow> measured \<Rightarrow> landmark list option \<Rightarrow> real \<Rightarrow> real
     \<Rightarrow> string option \<times> cooldown" where
  "detectPunch cd clock m landmarks width height =
     (case landmarks of
        None \<Rightarrow> (None, cd)
      | Some ls \<Rightarrow>
          if length ls < 17 then (None, cd)
          else
            let k = kinematicsOf m ls width height;
                leftUpwardMovement = leftShoulderY k - leftWristY k;
                rightUpwardMovement = rightShoulderY k - rightWristY k
            in
            if leftSpeed k > MIN_SPEED \<and>
               leftExtension k > MIN_EXTENSION \<and>
               leftAngle k > MIN_STRAIGHT_ANGLE \<and>
               leftWristY k < leftShoulderY k + 50 \<and>
               leftWristY k > leftShoulderY k - 50 \<and>
               fst (canPunch cd (clock ''Jab'') ''Jab'')
            then (Some ''Jab'', snd (canPunch cd (clock ''Jab'') ''Jab''))
            else if rightSpeed k > MIN_SPEED \<and>
               rightExtension k > MIN_EXTENSION \<and>
               rightAngle k > MIN_STRAIGHT_ANGLE \<and>
               rightWristY k < rightShoulderY k + 50 \<and>
               rightWristY k > rightShoulderY k - 50 \<and>
               fst (canPunch cd (clock ''Cross'') ''Cross'')
            then (Some ''Cross'', snd (canPunch cd (clock ''Cross'') ''Cross''))
            else if leftSpeed k > MIN_SPEED * 0.85 \<and>
               leftAngle k < MAX_HOOK_ANGLE \<and>
               leftWristY k < leftShoulderY k + 30 \<and>
               leftWristY k > leftShoulderY k - 30 \<and>
               fst (canPunch cd (clock ''Left Hook'') ''Left Hook'')
            then (Some ''Left Hook'', snd (canPunch cd (clock ''Left Hook'') ''Left Hook''))
            else if rightSpeed k > MIN_SPEED * 0.85 \<and>
               rightAngle k < MAX_HOOK_ANGLE \<and>
               rightWristY k < rightShoulderY k + 30 \<and>
               rightWristY k > rightShoulderY k - 30 \<and>
               fst (canPunch cd (clock ''Right Hook'') ''Right Hook'')
            then (Some ''Right Hook'', snd (canPunch cd (clock ''Right Hook'') ''Right Hook''))
            else if leftSpeed k > MIN_UPPERCUT_SPEED \<and>
               leftUpwardMovement > 80 \<and>
               leftAngle k < 100 \<and>
               leftWristY k < leftShoulderY k \<and>
               fst (canPunch cd (clock ''Left Uppercut'') ''Left Uppercut'')
            then (Some ''Left Uppercut'',
                  snd (canPunch cd (clock ''Left Uppercut'') ''Left Uppercut''))
            else if rightSpeed k > MIN_UPPERCUT_SPEED \<and>
               rightUpwardMovement > 80 \<and>
               rightAngle k < 100 \<and>
               rightWristY k < rightShoulderY k \<and>
               fst (canPunch cd (clock ''Right Uppercut'') ''Right Uppercut'')
            then (Some ''Right Uppercut'',
                  snd (canPunch cd (clock ''Right Uppercut'') ''Right Uppercut''))
            else if leftSpeed k > MIN_SPEED * 0.8 \<and>
               leftExtension k > MIN_EXTENSION * 0.8 \<and>
               leftWristY k > leftHipY k - 100 \<and>
               leftWristY k < leftHipY k + 50 \<and>
               leftAngle k > 120 \<and>
               fst (canPunch cd (clock ''Left Body'') ''Left Body'')
            then (Some ''Left Body'', snd (canPunch cd (clock ''Left Body'') ''Left Body''))
            else if rightSpeed k > MIN_SPEED * 0.8 \<and>
               rightExtension k > MIN_EXTENSION * 0.8 \<and>
               rightWristY k > rightHipY k - 100 \<and>
               rightWristY k < rightHipY k + 50 \<and>
               rightAngle k > 120 \<and>
               fst (canPunch cd (clock ''Right Body'') ''Right Body'')
            then (Some ''Right Body'', snd (canPunch cd (clock ''Right Body'') ''Right Body''))
            else (None, cd))"

section \<open>detectPunch, arcade punch.js (relaxed rule set, six classes)\<close>

text \<open>
  The extension ratios are JavaScript quotients; the shoulder width can be zero, and a
  quotient by zero is \<^verbatim>\<open>Infinity\<close> or \<^verbatim>\<open>NaN\<close>, which compare as below.
\<close>

datatype jsNumber = Num real | PosInfinity | NegInfinity | NaN

definition jsDiv :: "real \<Rightarrow> real \<Rightarrow> jsNumber" where
  "jsDiv a b =
     (if b \<noteq> 0 then Num (a / b)
      else if a > 0 then PosInfinity
      else if a < 0 then NegInfinity
      else NaN)"

fun jsGreater :: "jsNumber \<Rightarrow> real \<Rightarrow> bool" where
  "jsGreater (Num r) t = (r > t)"
| "jsGreater PosInfinity t = True"
| "jsGreater NegInfinity t = False"
| "jsGreater NaN t = False"

fun jsLess :: "jsNumber \<Rightarrow> real \<Rightarrow> bool" where
  "jsLess (Num r) t = (r < t)"
| "jsLess PosInfinity t = False"
| "jsLess NegInfinity t = True"
| "jsLess NaN t = False"

definition MIN_SPEED_arcade :: real where "MIN_SPEED_arcade = 40"
definition MIN_EXT_RATIO :: real where "MIN_EXT_RATIO = 0.5"

definition detectPunch_arcade ::
  "cooldown \<Rightarrow> (string \<Rightarrow> real) \<Rightarrow> measured \<Rightarrow> landmark list option \<Rightarrow> real \<Rightarrow> real
     \<Rightarrow> string option \<times> cooldown" where
  "detectPunch_arcade cd clock m landmarks width height =
     (case landmarks of
        None \<Rightarrow> (None, cd)
      | Some ls \<Rightarrow>
          if length ls < 17 then (None, cd)
          else
            let leftShoulder = ls ! 11;
                rightShoulder = ls ! 12;
                leftWrist = ls ! 15;
                rightWrist = ls ! 16;
                shoulderWidth = \<bar>xCoord leftShoulder - xCoord rightShoulder\<bar> * width;
                leftExtensionDist = \<bar>xCoord leftWrist - xCoord leftShoulder\<bar> * width;
                rightExtensionDist = \<bar>xCoord rightWrist - xCoord rightShoulder\<bar> * width;
                leftExtRatio = jsDiv leftExtensionDist shoulderWidth;
                rightExtRatio = jsDiv rightExtensionDist shoulderWidth
            in
            if leftSpeed m > MIN_SPEED_arcade \<and> jsGreater leftExtRatio MIN_EXT_RATIO \<and>
               fst (canPunch_arcade cd (clock ''Jab'') ''Jab'')
            then (Some ''Jab'', snd (canPunch_arcade cd (clock ''Jab'') ''Jab''))
            else if rightSpeed m > MIN_SPEED_arcade \<and> jsGreater rightExtRatio MIN_EXT_RATIO \<and>
               fst (canPunch_arcade cd (clock ''Cross'') ''Cross'')
            then (Some ''Cross'', snd (canPunch_arcade cd (clock ''Cross'') ''Cross''))
            else if leftSpeed m > MIN_SPEED_arcade \<and> jsLess leftExtRatio 0.7 \<and>
               yCoord leftWrist < yCoord leftShoulder + 0.2 \<and>
               fst (canPunch_arcade cd (clock ''Left Hook'') ''Left Hook'')
            then (Some ''Left Hook'',
                  snd (canPunch_arcade cd (clock ''Left Hook'') ''Left Hook''))
            else if rightSpeed m > MIN_SPEED_arcade \<and> jsLess rightExtRatio 0.7 \<and>
               yCoord rightWrist < yCoord rightShoulder + 0.2 \<and>
               fst (canPunch_arcade cd (clock ''Right Hook'') ''Right Hook'')
            then (Some ''Right Hook'',
                  snd (canPunch_arcade cd (clock ''Right Hook'') ''Right Hook''))
            else if leftSpeed m > MIN_SPEED_arcade \<and>
               yCoord leftWrist > yCoord leftShoulder - 0.2 \<and> leftAngle m < 120 \<and>
               fst (canPunch_arcade cd (clock ''Left Uppercut'') ''Left Uppercut'')
            then (Some ''Left Uppercut'',
                  snd (canPunch_arcade cd (clock ''Left Uppercut'') ''Left Uppercut''))
            else if rightSpeed m > MIN_SPEED_arcade \<and>
               yCoord rightWrist > yCoord rightShoulder - 0.2 \<and> rightAngle m < 120 \<and>
               fst (canPunch_arcade cd (clock ''Right Uppercut'') ''Right Uppercut'')
            then (Some ''Right Uppercut'',
                  snd (canPunch_arcade cd (clock ''Right Uppercut'') ''Right Uppercut''))
            else (None, cd))"

section \<open>scoring.js\<close>

record scoringConfig =
  idealAngle :: real
  idealSpeed :: real
  maxSpeed :: real
  angleTolerance :: real
  speedWeight :: real
  formWeight :: real

definition jabConfig :: scoringConfig where
  "jabConfig = \<lparr>idealAngle = 165, idealSpeed = 150, maxSpeed = 2500, angleTolerance = 25,
                 speedWeight = 0.6, formWeight = 0.4\<rparr>"

definition crossConfig :: scoringConfig where
  "crossConfig = \<lparr>idealAngle = 165, idealSpeed = 180, maxSpeed = 3000, angleTolerance = 25,
                   speedWeight = 0.65, formWeight = 0.35\<rparr>"

definition hookConfig :: scoringConfig where
  "hookConfig = \<lparr>idealAngle = 90, idealSpeed = 140, maxSpeed = 2200, angleTolerance = 30,
                  speedWeight = 0.5, formWeight = 0.5\<rparr>"

text \<open>The object literal \<^verbatim>\<open>SCORING_CONFIG\<close>: five keys; \<^verbatim>\<open>left\<close> and \<^verbatim>\<open>right\<close> repeat
  the values of \<^verbatim>\<open>hook\<close>.\<close>

definition SCORING_CONFIG :: "(string \<times> scoringConfig) list" where
  "SCORING_CONFIG =
     [(''jab'', jabConfig), (''cross'', crossConfig), (''hook'', hookConfig),
      (''left'', hookConfig), (''right'', hookConfig)]"

text \<open>\<^verbatim>\<open>SCORING_CONFIG[punchType] || SCORING_CONFIG.jab\<close>, on the object's own keys.\<close>

definition getConfig :: "string \<Rightarrow> scoringConfig" where
  "getConfig punchType =
     (case map_of SCORING_CONFIG punchType of Some c \<Rightarrow> c | None \<Rightarrow> jabConfig)"

text \<open>The speed sub-score, lines 68-84 of scoring.js, before \<^verbatim>\<open>Math.round\<close>.\<close>

definition speedScoreOf :: "scoringConfig \<Rightarrow> real \<Rightarrow> real" where
  "speedScoreOf config speed =
     (let idealSpeedRatio = speed / idealSpeed config;
          speedScore =
            (if idealSpeedRatio < 0.5 then idealSpeedRatio * 2 * 100
             else if idealSpeedRatio \<le> 1.5 then 100 - \<bar>idealSpeedRatio - 1\<bar> * 30
             else max (70 - (idealSpeedRatio - 1.5) * 20) 40)
      in max 0 (min 100 speedScore))"

text \<open>The form sub-score, lines 86-98 of scoring.js, before \<^verbatim>\<open>Math.round\<close>.\<close>

definition formScoreOf :: "scoringConfig \<Rightarrow> real \<Rightarrow> real" where
  "formScoreOf config angle =
     (let angleDeviation = \<bar>angle - idealAngle config\<bar>;
          formScore =
            (if angleDeviation \<le> angleTolerance config
             then 100 - (angleDeviation / angleTolerance config) * 20
             else let excessDeviation = angleDeviation - angleTolerance config
                  in max (80 - excessDeviation * 1.5) 0)
      in max 0 (min 100 formScore))"

definition getGrade :: "real \<Rightarrow> string" where
  "getGrade score =
     (if score \<ge> 95 then ''S''
      else if score \<ge> 90 then ''A+''
      else if score \<ge> 85 then ''A''
      else if score \<ge> 80 then ''A-''
      else if score \<ge> 75 then ''B+''
      else if score \<ge> 70 then ''B''
      else if score \<ge> 65 then ''B-''
      else if score \<ge> 60 then ''C+''
      else if score \<ge> 55 then ''C''
      else if score \<ge> 50 then ''C-''
      else if score \<ge> 45 then ''D''
      else ''F'')"

text \<open>\<^verbatim>\<open>Math.round\<close>: the nearest integer, halves upwards.\<close>

definition mathRound :: "real \<Rightarrow> int" where
  "mathRound v = \<lfloor>v + 1 / 2\<rfloor>"

text \<open>
  The object \<^verbatim>\<open>calculateScore\<close> returns, without the feedback text (chosen with
  \<^verbatim>\<open>Math.random\<close>) and the \<^verbatim>\<open>details\<close>. The flags are absent from the "no punch"
  object, which reads as false.
\<close>

record scoreResult =
  resSpeedScore :: int
  resFormScore :: int
  resTotalScore :: int
  resGrade :: string
  resIsPerfect :: bool
  resIsGreat :: bool
  resIsGood :: bool

definition calculateScore :: "string option \<Rightarrow> real \<Rightarrow> real \<Rightarrow> scoreResult" where
  "calculateScore punchType speed angle =
     (if \<not> truthy punchType \<or> punchType = Some ''none''
      then \<lparr>resSpeedScore = 0, resFormScore = 0, resTotalScore = 0, resGrade = ''F'',
            resIsPerfect = False, resIsGreat = False, resIsGood = False\<rparr>
      else
        let config = getConfig (case punchType of Some t \<Rightarrow> t | None \<Rightarrow> []);
            speedScore = speedScoreOf config speed;
            formScore = formScoreOf config angle;
            totalScore = speedScore * speedWeight config + formScore * formWeight config
        in \<lparr>resSpeedScore = mathRound speedScore, resFormScore = mathRound formScore,
             resTotalScore = mathRound totalScore, resGrade = getGrade totalScore,
             resIsPerfect = (totalScore \<ge> 95), resIsGreat = (totalScore \<ge> 85),
             resIsGood = (totalScore \<ge> 70)\<rparr>)"

definition calculateComboMultiplier :: "nat \<Rightarrow> real" where
  "calculateComboMultiplier comboCount =
     (if comboCount < 3 then 1.0
      else if comboCount < 5 then 1.2
      else if comboCount < 10 then 1.5
      else if comboCount < 15 then 1.8
      else if comboCount < 25 then 2.0
      else 2.5)"

section \<open>game.js: FocusMittDrill\<close>

text \<open>
  The fields of the drill object that carry state. The DOM, the sounds and the
  notifications are left out, except for what \<^verbatim>\<open>stop\<close> reports (record \<open>summary\<close>).
  \<^item> \<open>drillTimeout\<close> is the pending reaction timer: \<open>Some ms\<close> while the timer armed
    with delay \<open>ms\<close> has neither fired nor been cleared, \<open>None\<close> otherwise.
  \<^item> \<open>announcePending\<close> counts the callbacks \<^verbatim>\<open>nextChallenge\<close> has scheduled with
    \<^verbatim>\<open>setTimeout\<close> that have not run yet (their handles are not kept, so nothing
    cancels them).
  \<^item> \<open>onScoreCalls\<close> lists the arguments of the calls of the callback \<^verbatim>\<open>onScore\<close>,
    oldest first.
  The constructor's constants \<^verbatim>\<open>comboResetDelay\<close>, \<^verbatim>\<open>hitsPerLevel\<close>,
  \<^verbatim>\<open>baseReactionTime\<close> and \<^verbatim>\<open>minReactionTime\<close> are never assigned again.
\<close>

record drill =
  activePunch :: "string option"
  drillTimeout :: "int option"
  isRunning :: bool
  comboCount :: nat
  comboMultiplier :: real
  lastHitTime :: int
  level :: nat
  hitsInLevel :: nat
  totalHits :: nat
  totalMisses :: nat
  perfectHits :: nat
  availablePunchTypes :: "string list"
  announcePending :: nat
  onScoreCalls :: "int list"

definition comboResetDelay :: int where "comboResetDelay = 3000"
definition hitsPerLevel :: nat where "hitsPerLevel = 10"
definition baseReactionTime :: int where "baseReactionTime = 2500"
definition minReactionTime :: int where "minReactionTime = 800"

text \<open>The object the constructor builds.\<close>

definition newFocusMittDrill :: drill where
  "newFocusMittDrill =
     \<lparr>activePunch = None, drillTimeout = None, isRunning = False, comboCount = 0,
      comboMultiplier = 1, lastHitTime = 0, level = 1, hitsInLevel = 0, totalHits = 0,
      totalMisses = 0, perfectHits = 0, availablePunchTypes = [''Jab'', ''Cross''],
      announcePending = 0, onScoreCalls = []\<rparr>"

definition resetStats :: "drill \<Rightarrow> drill" where
  "resetStats st =
     st\<lparr>comboCount := 0, comboMultiplier := 1, level := 1, hitsInLevel := 0,
        totalHits := 0, totalMisses := 0, perfectHits := 0,
        availablePunchTypes := [''Jab'', ''Cross'']\<rparr>"

text \<open>\<^verbatim>\<open>updateAvailablePunches\<close>: three \<^verbatim>\<open>if\<close> statements in sequence, each pushing two
  names at the end of the array.\<close>

definition updateAvailablePunches :: "drill \<Rightarrow> drill" where
  "updateAvailablePunches st =
     (let st1 = (if level st \<ge> 3 \<and> ''Left Hook'' \<notin> set (availablePunchTypes st)
                 then st\<lparr>availablePunchTypes :=
                          availablePunchTypes st @ [''Left Hook'', ''Right Hook'']\<rparr>
                 else st);
          st2 = (if level st1 \<ge> 5 \<and> ''Left Uppercut'' \<notin> set (availablePunchTypes st1)
                 then st1\<lparr>availablePunchTypes :=
                          availablePunchTypes st1 @ [''Left Uppercut'', ''Right Uppercut'']\<rparr>
                 else st1)
      in if level st2 \<ge> 7 \<and> ''Left Body'' \<notin> set (availablePunchTypes st2)
         then st2\<lparr>availablePunchTypes :=
                   availablePunchTypes st2 @ [''Left Body'', ''Right Body'']\<rparr>
         else st2)"

definition getCurrentReactionTime :: "drill \<Rightarrow> int" where
  "getCurrentReactionTime st =
     max (baseReactionTime - (int (level st) - 1) * 150) minReactionTime"

definition getDelayBetweenPunches :: "drill \<Rightarrow> int" where
  "getDelayBetweenPunches st = max (800 - (int (level st) - 1) * 40) 250"

definition resetCombo :: "drill \<Rightarrow> drill" where
  "resetCombo st = st\<lparr>comboCount := 0, comboMultiplier := 1\<rparr>"

text \<open>\<^verbatim>\<open>nextChallenge\<close> up to the \<^verbatim>\<open>setTimeout\<close>; \<open>now\<close> is the value of
  \<^verbatim>\<open>Date.now()\<close> it reads.\<close>

definition nextChallenge :: "drill \<Rightarrow> int \<Rightarrow> drill" where
  "nextChallenge st now =
     (if \<not> isRunning st then st
      else
        let st1 = (if now - lastHitTime st > comboResetDelay \<and> comboCount st > 0
                   then resetCombo st else st)
        in st1\<lparr>announcePending := announcePending st1 + 1\<rparr>)"

definition showTarget :: "drill \<Rightarrow> string \<Rightarrow> drill" where
  "showTarget st punchType = st\<lparr>activePunch := Some punchType\<rparr>"

text \<open>
  The callback \<^verbatim>\<open>nextChallenge\<close> schedules, when it runs: \<open>rnd\<close> is the value of
  \<^verbatim>\<open>Math.random()\<close>, in \<open>[0, 1)\<close>. An index outside the array reads \<^verbatim>\<open>undefined\<close>, and
  \<^verbatim>\<open>showTarget(undefined)\<close> throws a TypeError: the result \<open>None\<close>.
\<close>

definition announceCallback :: "drill \<Rightarrow> real \<Rightarrow> drill option" where
  "announceCallback st rnd =
     (let st0 = st\<lparr>announcePending := announcePending st - 1\<rparr> in
      if \<not> isRunning st0 then Some st0
      else
        let i = \<lfloor>rnd * real (length (availablePunchTypes st0))\<rfloor> in
        if 0 \<le> i \<and> nat i < length (availablePunchTypes st0)
        then Some ((showTarget st0 (availablePunchTypes st0 ! nat i))
                     \<lparr>drillTimeout := Some (getCurrentReactionTime st0)\<rparr>)
        else None)"

definition normalizePunchName :: "string \<Rightarrow> string" where
  "normalizePunchName punchName' =
     replaceFirst ''rightbody'' ''rbody''
       (replaceFirst ''leftbody'' ''lbody''
         (replaceFirst ''rightuppercut'' ''ruppercut''
           (replaceFirst ''leftuppercut'' ''luppercut''
             (replaceFirst ''righthook'' ''rhook''
               (replaceFirst ''lefthook'' ''lhook''
                 (removeSpaces (toLowerCase punchName')))))))"

definition levelUp :: "drill \<Rightarrow> drill" where
  "levelUp st = updateAvailablePunches (st\<lparr>level := level st + 1, hitsInLevel := 0\<rparr>)"

text \<open>
  The argument \<^verbatim>\<open>punchData\<close> of \<^verbatim>\<open>checkPunch\<close> and \<^verbatim>\<open>handleHit\<close>: the two fields
  read, each possibly absent. \<open>orDefault v d\<close> is \<^verbatim>\<open>v || d\<close> on numbers (absent and
  \<open>0\<close> are falsy).
\<close>

record punchData =
  speedScore :: "real option"
  formScore :: "real option"

definition orDefault :: "real option \<Rightarrow> real \<Rightarrow> real" where
  "orDefault v d = (case v of None \<Rightarrow> d | Some r \<Rightarrow> if r = 0 then d else r)"

text \<open>The points \<^verbatim>\<open>handleHit\<close> computes (lines 212-229), from the active punch, the
  data of the punch and the combo multiplier.\<close>

definition hitPoints :: "string \<Rightarrow> punchData \<Rightarrow> real \<Rightarrow> int" where
  "hitPoints active pd multiplier =
     (let avgQuality = (orDefault (speedScore pd) 50 + orDefault (formScore pd) 50) / 2;
          points0 = (100::real);
          points1 = (if avgQuality > 90 then points0 + 50
                     else if avgQuality > 75 then points0 + 25 else points0);
          points2 = (if str_includes active ''Hook'' then points1 + 10 else points1);
          points3 = (if str_includes active ''Uppercut'' then points2 + 20 else points2);
          points4 = (if str_includes active ''Body'' then points3 + 15 else points3)
      in \<lfloor>points4 * multiplier\<rfloor>)"

text \<open>
  \<^verbatim>\<open>handleHit\<close>. \<open>tHit\<close> is the reading of \<^verbatim>\<open>Date.now()\<close> stored in
  \<^verbatim>\<open>lastHitTime\<close>, \<open>tNext\<close> the one \<^verbatim>\<open>nextChallenge\<close> takes at the end. With no active
  punch, \<^verbatim>\<open>this.activePunch.includes\<close> throws a TypeError: the result \<open>None\<close>.
\<close>

definition handleHit :: "drill \<Rightarrow> punchData \<Rightarrow> int \<Rightarrow> int \<Rightarrow> drill option" where
  "handleHit st pd tHit tNext =
     (let st1 = st\<lparr>drillTimeout := None\<rparr>;
          st2 = st1\<lparr>comboCount := comboCount st1 + 1\<rparr>;
          st3 = st2\<lparr>comboMultiplier := 1 + real (comboCount st2 div 3) * 0.5,
                    lastHitTime := tHit\<rparr>;
          avgQuality = (orDefault (speedScore pd) 50 + orDefault (formScore pd) 50) / 2;
          st4 = (if avgQuality > 90 then st3\<lparr>perfectHits := perfectHits st3 + 1\<rparr> else st3)
      in case activePunch st4 of
           None \<Rightarrow> None
         | Some active \<Rightarrow>
             let points = hitPoints active pd (comboMultiplier st4);
                 st5 = st4\<lparr>onScoreCalls := onScoreCalls st4 @ [points],
                           totalHits := totalHits st4 + 1,
                           hitsInLevel := hitsInLevel st4 + 1\<rparr>;
                 st6 = (if hitsInLevel st5 \<ge> hitsPerLevel then levelUp st5 else st5)
             in Some (nextChallenge (st6\<lparr>activePunch := None\<rparr>) tNext))"

text \<open>\<^verbatim>\<open>checkPunch\<close>: \<open>detectedPunch\<close> is a string.\<close>

definition checkPunch :: "drill \<Rightarrow> string \<Rightarrow> punchData \<Rightarrow> int \<Rightarrow> int \<Rightarrow> drill option" where
  "checkPunch st detectedPunch pd tHit tNext =
     (case activePunch st of
        None \<Rightarrow> Some st
      | Some active \<Rightarrow>
          if \<not> isRunning st \<or> active = [] then Some st
          else if normalizePunchName detectedPunch = normalizePunchName active
          then handleHit st pd tHit tNext
          else Some st)"

definition handleMiss :: "drill \<Rightarrow> int \<Rightarrow> drill" where
  "handleMiss st now =
     (let st1 = st\<lparr>drillTimeout := None, totalMisses := totalMisses st + 1\<rparr>;
          st2 = (if comboCount st1 > 0 then resetCombo st1 else st1)
      in nextChallenge (st2\<lparr>activePunch := None\<rparr>) now)"

definition start :: "drill \<Rightarrow> int \<Rightarrow> drill" where
  "start st now = nextChallenge (updateAvailablePunches (resetStats (st\<lparr>isRunning := True\<rparr>))) now"

text \<open>
  What the notification of \<^verbatim>\<open>stop\<close> reports. \<open>accuracy\<close> is the percentage the text
  shows: \<^verbatim>\<open>toFixed(1)\<close> rounds to one decimal place (\<open>toFixed1\<close>, on the real value), and
  the number \<open>0\<close> stands when nothing was recorded.
\<close>

record summary =
  sumHits :: nat
  sumMisses :: nat
  sumAccuracy :: real
  sumMaxCombo :: nat
  sumLevelReached :: nat

definition toFixed1 :: "real \<Rightarrow> real" where
  "toFixed1 v = real_of_int \<lfloor>v * 10 + 1 / 2\<rfloor> / 10"

definition stop :: "drill \<Rightarrow> summary \<times> drill" where
  "stop st =
     (let st1 = st\<lparr>isRunning := False, drillTimeout := None\<rparr>;
          accuracy = (if totalHits st1 + totalMisses st1 > 0
                      then toFixed1 (real (totalHits st1)
                                       / real (totalHits st1 + totalMisses st1) * 100)
                      else 0)
      in (\<lparr>sumHits = totalHits st1, sumMisses = totalMisses st1, sumAccuracy = accuracy,
           sumMaxCombo = comboCount st1, sumLevelReached = level st1\<rparr>, st1))"

text \<open>
  What can happen to a running drill between \<^verbatim>\<open>start\<close> and \<^verbatim>\<open>stop\<close>: a scheduled
  announcement runs, the reaction timer fires (\<^verbatim>\<open>handleMiss\<close>), or the caller reports a
  detected punch (\<^verbatim>\<open>checkPunch\<close>). A timer that is not pending cannot fire: the step
  leaves the drill as it is. \<open>None\<close> is a thrown TypeError.
\<close>

datatype event =
  Announce real
| ReactionTimeout int
| Punch string punchData int int

fun step :: "drill \<Rightarrow> event \<Rightarrow> drill option" where
  "step st (Announce rnd) = (if announcePending st > 0 then announceCallback st rnd else Some st)"
| "step st (ReactionTimeout now) =
     (if drillTimeout st \<noteq> None then Some (handleMiss st now) else Some st)"
| "step st (Punch detectedPunch pd tHit tNext) = checkPunch st detectedPunch pd tHit tNext"

fun run :: "drill \<Rightarrow> event list \<Rightarrow> drill option" where
  "run st [] = Some st"
| "run st (e # es) = (case step st e of None \<Rightarrow> None | Some st' \<Rightarrow> run st' es)"

text \<open>The combo counts a drill goes through on a list of events, for the largest of
  them: the maximum combo of the session.\<close>

fun maxComboReached :: "drill \<Rightarrow> event list \<Rightarrow> nat" where
  "maxComboReached st [] = comboCount st"
| "maxComboReached st (e # es) =
     (case step st e of
        None \<Rightarrow> comboCount st
      | Some st' \<Rightarrow> max (comboCount st) (maxComboReached st' es))"

section \<open>combo.js: ComboDrill\<close>

record comboDef =
  comboId :: string
  comboName :: string
  comboSequence :: "string list"

definition COMBOS :: "comboDef list" where
  "COMBOS =
     [\<lparr>comboId = ''1-2'', comboName = ''One Two'', comboSequence = [''Jab'', ''Cross'']\<rparr>,
      \<lparr>comboId = ''1-1-2'', comboName = ''Double Jab Cross'',
       comboSequence = [''Jab'', ''Jab'', ''Cross'']\<rparr>,
      \<lparr>comboId = ''1-2-3'', comboName = ''One Two Hook'',
       comboSequence = [''Jab'', ''Cross'', ''Left Hook'']\<rparr>,
      \<lparr>comboId = ''2-3-2'', comboName = ''Cross Hook Cross'',
       comboSequence = [''Cross'', ''Left Hook'', ''Cross'']\<rparr>,
      \<lparr>comboId = ''1-2-5'', comboName = ''One Two Uppercut'',
       comboSequence = [''Jab'', ''Cross'', ''Left Uppercut'']\<rparr>,
      \<lparr>comboId = ''1-6-3'', comboName = ''Jab Upper Hook'',
       comboSequence = [''Jab'', ''Right Uppercut'', ''Left Hook'']\<rparr>]"

text \<open>
  The state of a ComboDrill (the DOM left out). \<open>nextComboPending\<close> and
  \<open>showTargetPending\<close> count the scheduled calls of \<^verbatim>\<open>nextCombo\<close> and
  \<^verbatim>\<open>showNextTarget\<close> that have not run yet; \<open>comboScoreCalls\<close> lists the arguments of the
  calls of \<^verbatim>\<open>onScore\<close>. The class has no counter of misses and no reaction timer.
\<close>

record comboDrill =
  comboRunning :: bool
  currentCombo :: "comboDef option"
  stepIndex :: nat
  comboScoreCalls :: "int list"
  nextComboPending :: nat
  showTargetPending :: nat

text \<open>\<^verbatim>\<open>ComboDrill.handleHit\<close>; it is called with a current combo only.\<close>

definition comboHandleHit :: "comboDrill \<Rightarrow> comboDef \<Rightarrow> comboDrill" where
  "comboHandleHit st combo =
     (let st1 = st\<lparr>stepIndex := stepIndex st + 1\<rparr> in
      if stepIndex st1 \<ge> length (comboSequence combo)
      then st1\<lparr>comboScoreCalls :=
                  comboScoreCalls st1 @ [100 * int (length (comboSequence combo))],
               nextComboPending := nextComboPending st1 + 1\<rparr>
      else st1)"

text \<open>
  \<^verbatim>\<open>ComboDrill.checkPunch\<close>. When \<^verbatim>\<open>stepIndex\<close> is past the end of the sequence (a
  combo just completed, the next one not yet drawn), \<^verbatim>\<open>requiredPunch\<close> is
  \<^verbatim>\<open>undefined\<close> and \<^verbatim>\<open>requiredPunch.toLowerCase()\<close> throws a TypeError: \<open>None\<close>.
\<close>

definition comboCheckPunch :: "comboDrill \<Rightarrow> string \<Rightarrow> comboDrill option" where
  "comboCheckPunch st detectedPunch =
     (case currentCombo st of
        None \<Rightarrow> Some st
      | Some combo \<Rightarrow>
          if \<not> comboRunning st then Some st
          else if stepIndex st < length (comboSequence combo)
          then
            let requiredPunch = comboSequence combo ! stepIndex st;
                d = removeSpaces (toLowerCase detectedPunch);
                r = removeSpaces (toLowerCase requiredPunch)
            in if d = r then Some (comboHandleHit st combo) else Some st
          else None)"

text \<open>\<^verbatim>\<open>nextCombo\<close>, with \<open>rnd\<close> the value of \<^verbatim>\<open>Math.random()\<close>.\<close>

definition nextCombo :: "comboDrill \<Rightarrow> real \<Rightarrow> comboDrill" where
  "nextCombo st rnd =
     (if \<not> comboRunning st then st
      else
        let i = nat \<lfloor>rnd * real (length COMBOS)\<rfloor> in
        st\<lparr>currentCombo := (if i < length COMBOS then Some (COMBOS ! i) else None),
           stepIndex := 0,
           showTargetPending := showTargetPending st + 1\<rparr>)"

text \<open>The object the constructor of ComboDrill builds, and \<^verbatim>\<open>start\<close>, which sets
  \<^verbatim>\<open>isRunning\<close> and calls \<^verbatim>\<open>nextCombo\<close>.\<close>

definition newComboDrill :: comboDrill where
  "newComboDrill =
     \<lparr>comboRunning = False, currentCombo = None, stepIndex = 0, comboScoreCalls = [],
      nextComboPending = 0, showTargetPending = 0\<rparr>"

definition comboStart :: "comboDrill \<Rightarrow> real \<Rightarrow> comboDrill" where
  "comboStart st rnd = nextCombo (st\<lparr>comboRunning := True\<rparr>) rnd"

text \<open>The punches of a list reported one after the other.\<close>

fun comboCheckPunches :: "comboDrill \<Rightarrow> string list \<Rightarrow> comboDrill option" where
  "comboCheckPunches st [] = Some st"
| "comboCheckPunches st (p # ps) =
     (case comboCheckPunch st p of None \<Rightarrow> None | Some st' \<Rightarrow> comboCheckPunches st' ps)"

section \<open>The notions the specification states the properties with\<close>

text \<open>The priority order of the classes: straight punches, hooks, uppercuts, body
  shots, the left side before the right one.\<close>

definition priorityOrder :: "punchClass list" where
  "priorityOrder =
     [Jab, Cross, LeftHook, RightHook, LeftUppercut, RightUppercut, LeftBody, RightBody]"

text \<open>The threshold predicates of each class in punch.js V2.\<close>

fun qualifies :: "kinematics \<Rightarrow> punchClass \<Rightarrow> bool" where
  "qualifies k Jab =
     (leftSpeed k > MIN_SPEED \<and> leftExtension k > MIN_EXTENSION \<and>
      leftAngle k > MIN_STRAIGHT_ANGLE \<and>
      leftWristY k < leftShoulderY k + 50 \<and> leftWristY k > leftShoulderY k - 50)"
| "qualifies k Cross =
     (rightSpeed k > MIN_SPEED \<and> rightExtension k > MIN_EXTENSION \<and>
      rightAngle k > MIN_STRAIGHT_ANGLE \<and>
      rightWristY k < rightShoulderY k + 50 \<and> rightWristY k > rightShoulderY k - 50)"
| "qualifies k LeftHook =
     (leftSpeed k > MIN_SPEED * 0.85 \<and> leftAngle k < MAX_HOOK_ANGLE \<and>
      leftWristY k < leftShoulderY k + 30 \<and> leftWristY k > leftShoulderY k - 30)"
| "qualifies k RightHook =
     (rightSpeed k > MIN_SPEED * 0.85 \<and> rightAngle k < MAX_HOOK_ANGLE \<and>
      rightWristY k < rightShoulderY k + 30 \<and> rightWristY k > rightShoulderY k - 30)"
| "qualifies k LeftUppercut =
     (leftSpeed k > MIN_UPPERCUT_SPEED \<and> leftShoulderY k - leftWristY k > 80 \<and>
      leftAngle k < 100 \<and> leftWristY k < leftShoulderY k)"
| "qualifies k RightUppercut =
     (rightSpeed k > MIN_UPPERCUT_SPEED \<and> rightShoulderY k - rightWristY k > 80 \<and>
      rightAngle k < 100 \<and> rightWristY k < rightShoulderY k)"
| "qualifies k LeftBody =
     (leftSpeed k > MIN_SPEED * 0.8 \<and> leftExtension k > MIN_EXTENSION * 0.8 \<and>
      leftWristY k > leftHipY k - 100 \<and> leftWristY k < leftHipY k + 50 \<and>
      leftAngle k > 120)"
| "qualifies k RightBody =
     (rightSpeed k > MIN_SPEED * 0.8 \<and> rightExtension k > MIN_EXTENSION * 0.8 \<and>
      rightWristY k > rightHipY k - 100 \<and> rightWristY k < rightHipY k + 50 \<and>
      rightAngle k > 120)"

text \<open>The threshold predicates of each class in the arcade punch.js, which has none for
  the body shots.\<close>

definition extRatio :: "landmark list \<Rightarrow> real \<Rightarrow> nat \<Rightarrow> nat \<Rightarrow> jsNumber" where
  "extRatio ls width wrist shoulder =
     jsDiv (\<bar>xCoord (ls ! wrist) - xCoord (ls ! shoulder)\<bar> * width)
           (\<bar>xCoord (ls ! 11) - xCoord (ls ! 12)\<bar> * width)"

fun qualifies_arcade :: "measured \<Rightarrow> landmark list \<Rightarrow> real \<Rightarrow> punchClass \<Rightarrow> bool" where
  "qualifies_arcade m ls width Jab =
     (leftSpeed m > MIN_SPEED_arcade \<and> jsGreater (extRatio ls width 15 11) MIN_EXT_RATIO)"
| "qualifies_arcade m ls width Cross =
     (rightSpeed m > MIN_SPEED_arcade \<and> jsGreater (extRatio ls width 16 12) MIN_EXT_RATIO)"
| "qualifies_arcade m ls width LeftHook =
     (leftSpeed m > MIN_SPEED_arcade \<and> jsLess (extRatio ls width 15 11) 0.7 \<and>
      yCoord (ls ! 15) < yCoord (ls ! 11) + 0.2)"
| "qualifies_arcade m ls width RightHook =
     (rightSpeed m > MIN_SPEED_arcade \<and> jsLess (extRatio ls width 16 12) 0.7 \<and>
      yCoord (ls ! 16) < yCoord (ls ! 12) + 0.2)"
| "qualifies_arcade m ls width LeftUppercut =
     (leftSpeed m > MIN_SPEED_arcade \<and> yCoord (ls ! 15) > yCoord (ls ! 11) - 0.2 \<and>
      leftAngle m < 120)"
| "qualifies_arcade m ls width RightUppercut =
     (rightSpeed m > MIN_SPEED_arcade \<and> yCoord (ls ! 16) > yCoord (ls ! 12) - 0.2 \<and>
      rightAngle m < 120)"
| "qualifies_arcade m ls width LeftBody = False"
| "qualifies_arcade m ls width RightBody = False"

text \<open>
  The first class of the priority order whose predicates hold and whose cooldown gate
  opens; \<open>gate name\<close> is the call \<^verbatim>\<open>canPunch(name)\<close> on the cooldown object of the frame,
  with its returned boolean and the object after it.
\<close>

definition firstOpen ::
  "(punchClass \<Rightarrow> bool) \<Rightarrow> (string \<Rightarrow> bool \<times> cooldown) \<Rightarrow> cooldown
     \<Rightarrow> string option \<times> cooldown" where
  "firstOpen qual gate cd =
     (case find (\<lambda>c. qual c \<and> fst (gate (punchName c))) priorityOrder of
        None \<Rightarrow> (None, cd)
      | Some c \<Rightarrow> (Some (punchName c), snd (gate (punchName c))))"

text \<open>The bonus of the score tier and of the category in the points of a hit.\<close>

definition tierBonus :: "punchData \<Rightarrow> real" where
  "tierBonus pd =
     (let avgQuality = (orDefault (speedScore pd) 50 + orDefault (formScore pd) 50) / 2
      in if avgQuality > 90 then 50 else if avgQuality > 75 then 25 else 0)"

fun categoryBonus :: "punchClass \<Rightarrow> real" where
  "categoryBonus Jab = 0"
| "categoryBonus Cross = 0"
| "categoryBonus LeftHook = 10"
| "categoryBonus RightHook = 10"
| "categoryBonus LeftUppercut = 20"
| "categoryBonus RightUppercut = 20"
| "categoryBonus LeftBody = 15"
| "categoryBonus RightBody = 15"

text \<open>The unlock table: the punches available at a level.\<close>

definition unlockTable :: "nat \<Rightarrow> string list" where
  "unlockTable l =
     [''Jab'', ''Cross'']
     @ (if l \<ge> 3 then [''Left Hook'', ''Right Hook''] else [])
     @ (if l \<ge> 5 then [''Left Uppercut'', ''Right Uppercut''] else [])
     @ (if l \<ge> 7 then [''Left Body'', ''Right Body''] else [])"

text \<open>The drill of a session that has reached level \<open>l\<close>: started, then levelled up
  \<open>l - 1\<close> times; and the punches unlocked in it.\<close>

definition drillAtLevel :: "nat \<Rightarrow> drill" where
  "drillAtLevel l = (levelUp ^^ (l - 1)) (start newFocusMittDrill 0)"

definition unlockedPunchSet :: "nat \<Rightarrow> string set" where
  "unlockedPunchSet l = set (availablePunchTypes (drillAtLevel l))"

text \<open>The hand-keyed relation of the arcade cooldown gate: a punch fired before, and with
  the hand of the new punch.\<close>

definition sameHand :: "string option \<Rightarrow> string \<Rightarrow> bool" where
  "sameHand lastType punchType =
     (case lastType of
        None \<Rightarrow> False
      | Some t \<Rightarrow> t \<noteq> [] \<and> isLeftHand t = isLeftHand punchType)"

section \<open>Example inputs\<close>

text \<open>A frame of 25 landmarks (indices 0 to 24): the left wrist (15) stretched out to
  the side at the height of the shoulder (11), the right wrist (16) close to its shoulder
  (12), the hips (23, 24) a little below the shoulders, as for a person far from the
  camera; and measured speeds and angles with a fast left wrist and a nearly straight
  left arm.\<close>

definition exampleFrame :: "landmark list" where
  "exampleFrame =
     (let z = \<lparr>xCoord = 0, yCoord = 0\<rparr> in
      [z, z, z, z, z, z, z, z, z, z, z,
       \<lparr>xCoord = 0.6, yCoord = 0.4\<rparr>, \<lparr>xCoord = 0.4, yCoord = 0.4\<rparr>,
       \<lparr>xCoord = 0.7, yCoord = 0.4\<rparr>, \<lparr>xCoord = 0.4, yCoord = 0.5\<rparr>,
       \<lparr>xCoord = 0.8, yCoord = 0.4\<rparr>, \<lparr>xCoord = 0.42, yCoord = 0.5\<rparr>,
       z, z, z, z, z, z,
       \<lparr>xCoord = 0.58, yCoord = 0.5\<rparr>, \<lparr>xCoord = 0.42, yCoord = 0.5\<rparr>])"

definition exampleMeasured :: measured where
  "exampleMeasured = \<lparr>leftSpeed = 100, rightSpeed = 0, leftAngle = 170, rightAngle = 90\<rparr>"

text \<open>A drill at level 1 right after its first announcement drew \<^verbatim>\<open>'Jab'\<close>.\<close>

definition level1JabDrill :: drill where
  "level1JabDrill =
     \<lparr>activePunch = Some ''Jab'', drillTimeout = Some 2500, isRunning = True, comboCount = 0,
      comboMultiplier = 1, lastHitTime = 0, level = 1, hitsInLevel = 0, totalHits = 0,
      totalMisses = 0, perfectHits = 0, availablePunchTypes = [''Jab'', ''Cross''],
      announcePending = 0, onScoreCalls = []\<rparr>"

text \<open>The data of a punch with no scores, and of one with full scores.\<close>

definition noScores :: punchData where
  "noScores = \<lparr>speedScore = None, formScore = None\<rparr>"

definition fullScores :: punchData where
  "fullScores = \<lparr>speedScore = Some 100, formScore = Some 100\<rparr>"

text \<open>Twelve Jabs in a row, each hitting the announced target (the announcements draw
  \<^verbatim>\<open>'Jab'\<close> every time); all clock readings are 10.\<close>

definition jabHit :: event where
  "jabHit = Punch ''Jab'' noScores 10 10"

definition twelveJabs :: "event list" where
  "twelveJabs =
     [jabHit, Announce 0, jabHit, Announce 0, jabHit, Announce 0, jabHit, Announce 0,
      jabHit, Announce 0, jabHit, Announce 0, jabHit, Announce 0, jabHit, Announce 0,
      jabHit, Announce 0, jabHit, Announce 0, jabHit, Announce 0, jabHit]"

text \<open>Three Jabs that hit, then a reaction timer that runs out.\<close>

definition threeHitsAndAMiss :: "event list" where
  "threeHitsAndAMiss =
     [jabHit, Announce 0, jabHit, Announce 0, jabHit, Announce 0, ReactionTimeout 5000]"

text \<open>A combo drill that runs and stands at the first step of the combo Jab, Cross,
  Left Hook of the pool.\<close>

definition oneTwoHook :: comboDef where
  "oneTwoHook =
     \<lparr>comboId = ''1-2-3'', comboName = ''One Two Hook'',
      comboSequence = [''Jab'', ''Cross'', ''Left Hook'']\<rparr>"

definition oneTwoHookDrill :: comboDrill where
  "oneTwoHookDrill =
     \<lparr>comboRunning = True, currentCombo = Some oneTwoHook, stepIndex = 0,
      comboScoreCalls = [], nextComboPending = 0, showTargetPending = 0\<rparr>"

text \<open>The same drill after the three punches of its combo: the combo is complete, 300
  points are awarded, and the call of \<^verbatim>\<open>nextCombo\<close> is scheduled 1000 ms later; until
  it runs the drill is running, has its current combo, and its step index is 3, the
  length of the sequence.\<close>

definition completedOneTwoHookDrill :: comboDrill where
  "completedOneTwoHookDrill =
     \<lparr>comboRunning = True, currentCombo = Some oneTwoHook, stepIndex = 3,
      comboScoreCalls = [300], nextComboPending = 1, showTargetPending = 0\<rparr>"

text \<open>A drill at level 3 that waits for a Left Hook, two hits into a combo.\<close>

definition level3HookDrill :: drill where
  "level3HookDrill =
     \<lparr>activePunch = Some ''Left Hook'', drillTimeout = Some 2200, isRunning = True,
      comboCount = 2, comboMultiplier = 1, lastHitTime = 0, level = 3, hitsInLevel = 2,
      totalHits = 22, totalMisses = 1, perfectHits = 0,
      availablePunchTypes = [''Jab'', ''Cross'', ''Left Hook'', ''Right Hook''],
      announcePending = 0, onScoreCalls = []\<rparr>"

section \<open>The priority order of the classifier\<close>

lemma case_find_Cons:
  "(case find P (x # xs) of None \<Rightarrow> a | Some c \<Rightarrow> f c) =
     (if P x then f x else (case find P xs of None \<Rightarrow> a | Some c \<Rightarrow> f c))"
  by simp

lemma if_eqI: "b = c \<Longrightarrow> x = u \<Longrightarrow> y = v \<Longrightarrow> (if b then x else y) = (if c then u else v)"
  by simp

lemma firstOpen_chain:
  "firstOpen qual gate cd =
    (if qual Jab \<and> fst (gate ''Jab'') then (Some ''Jab'', snd (gate ''Jab''))
     else if qual Cross \<and> fst (gate ''Cross'') then (Some ''Cross'', snd (gate ''Cross''))
     else if qual LeftHook \<and> fst (gate ''Left Hook'')
       then (Some ''Left Hook'', snd (gate ''Left Hook''))
     else if qual RightHook \<and> fst (gate ''Right Hook'')
       then (Some ''Right Hook'', snd (gate ''Right Hook''))
     else if qual LeftUppercut \<and> fst (gate ''Left Uppercut'')
       then (Some ''Left Uppercut'', snd (gate ''Left Uppercut''))
     else if qual RightUppercut \<and> fst (gate ''Right Uppercut'')
       then (Some ''Right Uppercut'', snd (gate ''Right Uppercut''))
     else if qual LeftBody \<and> fst (gate ''Left Body'')
       then (Some ''Left Body'', snd (gate ''Left Body''))
     else if qual RightBody \<and> fst (gate ''Right Body'')
       then (Some ''Right Body'', snd (gate ''Right Body''))
     else (None, cd))"
  unfolding firstOpen_def priorityOrder_def
  apply (subst case_find_Cons)+
  apply (simp only: find.simps option.case punchName.simps)
  done

lemma detectPunch_strict_chain:
  "detectPunch cd clock m (Some ls) width height =
     (if length ls < 17 then (None, cd)
      else firstOpen (qualifies (kinematicsOf m ls width height))
             (\<lambda>name. canPunch cd (clock name) name) cd)"
  unfolding detectPunch_def firstOpen_chain Let_def option.case
  by (intro if_eqI) (simp_all only: qualifies.simps conj_assoc)

lemma detectPunch_arcade_chain:
  "detectPunch_arcade cd clock m (Some ls) width height =
     (if length ls < 17 then (None, cd)
      else firstOpen (qualifies_arcade m ls width)
             (\<lambda>name. canPunch_arcade cd (clock name) name) cd)"
  unfolding detectPunch_arcade_def firstOpen_chain Let_def option.case
  by (intro if_eqI)
     (simp_all only: qualifies_arcade.simps extRatio_def conj_assoc simp_thms if_False)

lemma detectPunch_no_landmarks:
  "detectPunch cd clock m None width height = (None, cd)"
  "detectPunch_arcade cd clock m None width height = (None, cd)"
  unfolding detectPunch_def detectPunch_arcade_def by (simp_all only: option.case)

text \<open>
  C1. In both rule sets \<^verbatim>\<open>detectPunch\<close> returns one value for \<^verbatim>\<open>punch\<close>: no class when the
  frame has fewer than 17 landmarks, and otherwise the first class of the priority order
  (Jab, Cross, Left Hook, Right Hook, Left Uppercut, Right Uppercut, Left Body, Right
  Body) whose threshold predicates hold on the frame and whose cooldown gate opens, with
  the cooldown object as that one call of the gate leaves it; no class when there is none.
  The arcade rule set has no predicates for the body shots.
\<close>

theorem detectPunch_first_in_priority:
  "detectPunch cd clock m landmarks width height =
     (case landmarks of
        None \<Rightarrow> (None, cd)
      | Some ls \<Rightarrow>
          if length ls < 17 then (None, cd)
          else firstOpen (qualifies (kinematicsOf m ls width height))
                 (\<lambda>name. canPunch cd (clock name) name) cd)
   \<and> detectPunch_arcade cd clock m landmarks width height =
     (case landmarks of
        None \<Rightarrow> (None, cd)
      | Some ls \<Rightarrow>
          if length ls < 17 then (None, cd)
          else firstOpen (qualifies_arcade m ls width)
                 (\<lambda>name. canPunch_arcade cd (clock name) name) cd)"
proof (cases landmarks)
  case None
  then show ?thesis by (simp only: detectPunch_no_landmarks option.case simp_thms)
next
  case (Some ls)
  then show ?thesis
    by (simp only: detectPunch_strict_chain detectPunch_arcade_chain option.case simp_thms)
qed

lemma exampleFrame_kinematics:
  "kinematicsOf exampleMeasured exampleFrame 640 480 =
     \<lparr>leftSpeed = 100, rightSpeed = 0, leftAngle = 170, rightAngle = 90,
      leftExtension = 128, rightExtension = 64 / 5, leftWristY = 192, rightWristY = 240,
      leftShoulderY = 192, rightShoulderY = 192, leftHipY = 240, rightHipY = 240\<rparr>"
  by (simp add: kinematicsOf_def exampleFrame_def exampleMeasured_def landmarkAt_def Let_def)

lemma exampleFrame_qualifies:
  "qualifies (kinematicsOf exampleMeasured exampleFrame 640 480) c \<longleftrightarrow> c = Jab \<or> c = LeftBody"
  unfolding exampleFrame_kinematics
  by (cases c)
     (simp_all add: MIN_SPEED_def MIN_EXTENSION_def MIN_STRAIGHT_ANGLE_def MAX_HOOK_ANGLE_def
        MIN_UPPERCUT_SPEED_def)

lemma exampleFrame_ratios:
  "extRatio exampleFrame 640 15 11 = Num 1" "extRatio exampleFrame 640 16 12 = Num (1 / 10)"
  by (simp_all add: extRatio_def exampleFrame_def jsDiv_def Let_def)

lemma exampleFrame_qualifies_arcade:
  "qualifies_arcade exampleMeasured exampleFrame 640 c \<longleftrightarrow> c = Jab"
  by (cases c)
     (simp_all add: exampleFrame_ratios MIN_SPEED_arcade_def MIN_EXT_RATIO_def
        exampleMeasured_def)

lemma exampleFrame_length: "length exampleFrame = 25"
  by (simp add: exampleFrame_def Let_def)

lemma exampleFrame_firstOpen:
  "firstOpen (qualifies (kinematicsOf exampleMeasured exampleFrame 640 480))
     (\<lambda>name. canPunch (newPunchCooldown 350) 1000 name) (newPunchCooldown 350)
   = (Some ''Jab'', \<lparr>cooldownMs = 350, lastPunchTime = 1000, lastPunchType = Some ''Jab''\<rparr>)"
  "firstOpen (qualifies (kinematicsOf exampleMeasured exampleFrame 640 480))
     (\<lambda>name. canPunch \<lparr>cooldownMs = 350, lastPunchTime = 1000, lastPunchType = Some ''Jab''\<rparr>
                1100 name)
     \<lparr>cooldownMs = 350, lastPunchTime = 1000, lastPunchType = Some ''Jab''\<rparr>
   = (Some ''Left Body'',
      \<lparr>cooldownMs = 350, lastPunchTime = 1100, lastPunchType = Some ''Left Body''\<rparr>)"
  "firstOpen (qualifies_arcade exampleMeasured exampleFrame 640)
     (\<lambda>name. canPunch_arcade (newPunchCooldown 250) 1000 name) (newPunchCooldown 250)
   = (Some ''Jab'', \<lparr>cooldownMs = 250, lastPunchTime = 1000, lastPunchType = Some ''Jab''\<rparr>)"
  by (simp_all add: firstOpen_chain exampleFrame_qualifies exampleFrame_qualifies_arcade
      canPunch_def canPunch_arcade_def newPunchCooldown_def isLeftHand_def truthy_def
      del: qualifies.simps qualifies_arcade.simps)

text \<open>
  The theorem at the example frame, on which the predicates of Jab and of Left Body both
  hold in the strict rule set: from the initial cooldown object the result is Jab, the
  earlier class; when the gate is closed for Jab (it fired 100 ms before), the result is
  Left Body.
\<close>

theorem detectPunch_first_in_priority_witness:
  "qualifies (kinematicsOf exampleMeasured exampleFrame 640 480) Jab
   \<and> qualifies (kinematicsOf exampleMeasured exampleFrame 640 480) LeftBody
   \<and> detectPunch (newPunchCooldown 350) (\<lambda>name. 1000) exampleMeasured (Some exampleFrame)
        640 480
      = (Some ''Jab'', \<lparr>cooldownMs = 350, lastPunchTime = 1000, lastPunchType = Some ''Jab''\<rparr>)
   \<and> detectPunch \<lparr>cooldownMs = 350, lastPunchTime = 1000, lastPunchType = Some ''Jab''\<rparr>
        (\<lambda>name. 1100) exampleMeasured (Some exampleFrame) 640 480
      = (Some ''Left Body'',
         \<lparr>cooldownMs = 350, lastPunchTime = 1100, lastPunchType = Some ''Left Body''\<rparr>)
   \<and> detectPunch_arcade (newPunchCooldown 250) (\<lambda>name. 1000) exampleMeasured
        (Some exampleFrame) 640 480
      = (Some ''Jab'', \<lparr>cooldownMs = 250, lastPunchTime = 1000, lastPunchType = Some ''Jab''\<rparr>)"
  using
    detectPunch_first_in_priority [of "newPunchCooldown 350" "\<lambda>name. 1000" exampleMeasured
      "Some exampleFrame" 640 480]
    detectPunch_first_in_priority [of
      "\<lparr>cooldownMs = 350, lastPunchTime = 1000, lastPunchType = Some ''Jab''\<rparr>"
      "\<lambda>name. 1100" exampleMeasured "Some exampleFrame" 640 480]
    detectPunch_first_in_priority [of "newPunchCooldown 250" "\<lambda>name. 1000" exampleMeasured
      "Some exampleFrame" 640 480]
  by (simp add: exampleFrame_firstOpen exampleFrame_qualifies exampleFrame_length
      del: qualifies.simps)

section \<open>Names and their normal forms\<close>

lemma lowered_names:
  "removeSpaces (toLowerCase (punchName Jab)) = ''jab''"
  "removeSpaces (toLowerCase (punchName Cross)) = ''cross''"
  "removeSpaces (toLowerCase (punchName LeftHook)) = ''lefthook''"
  "removeSpaces (toLowerCase (punchName RightHook)) = ''righthook''"
  "removeSpaces (toLowerCase (punchName LeftUppercut)) = ''leftuppercut''"
  "removeSpaces (toLowerCase (punchName RightUppercut)) = ''rightuppercut''"
  "removeSpaces (toLowerCase (punchName LeftBody)) = ''leftbody''"
  "removeSpaces (toLowerCase (punchName RightBody)) = ''rightbody''"
  by (simp_all add: toLowerCase_def removeSpaces_def lowerChar_def isSpace_def)

lemma normalized_names:
  "normalizePunchName (punchName Jab) = ''jab''"
  "normalizePunchName (punchName Cross) = ''cross''"
  "normalizePunchName (punchName LeftHook) = ''lhook''"
  "normalizePunchName (punchName RightHook) = ''rhook''"
  "normalizePunchName (punchName LeftUppercut) = ''luppercut''"
  "normalizePunchName (punchName RightUppercut) = ''ruppercut''"
  "normalizePunchName (punchName LeftBody) = ''lbody''"
  "normalizePunchName (punchName RightBody) = ''rbody''"
  unfolding normalizePunchName_def lowered_names by simp_all

lemma normalized_names_inj:
  "normalizePunchName (punchName a) = normalizePunchName (punchName b) \<longleftrightarrow> a = b"
  by (cases a; cases b; simp only: normalized_names; simp)

lemma lowered_names_inj:
  "removeSpaces (toLowerCase (punchName a)) = removeSpaces (toLowerCase (punchName b))
     \<longleftrightarrow> a = b"
  by (cases a; cases b; simp only: lowered_names; simp)

lemma name_neqs [simp]:
  "''Left Hook'' \<noteq> ''Left Uppercut''" "''Left Hook'' \<noteq> ''Right Uppercut''"
  "''Left Hook'' \<noteq> ''Left Body''" "''Left Hook'' \<noteq> ''Right Body''"
  "''Left Uppercut'' \<noteq> ''Left Hook''" "''Left Uppercut'' \<noteq> ''Right Hook''"
  "''Left Uppercut'' \<noteq> ''Left Body''" "''Left Uppercut'' \<noteq> ''Right Body''"
  "''Left Body'' \<noteq> ''Left Hook''" "''Left Body'' \<noteq> ''Right Hook''"
  "''Left Body'' \<noteq> ''Left Uppercut''" "''Left Body'' \<noteq> ''Right Uppercut''"
  "''Left Hook'' \<noteq> ''Jab''" "''Left Hook'' \<noteq> ''Cross''"
  "''Left Uppercut'' \<noteq> ''Jab''" "''Left Uppercut'' \<noteq> ''Cross''"
  "''Left Body'' \<noteq> ''Jab''" "''Left Body'' \<noteq> ''Cross''"
  by simp_all

section \<open>The unlock table of the drill\<close>

lemma level_updateAvailablePunches [simp]: "level (updateAvailablePunches st) = level st"
  by (simp add: updateAvailablePunches_def Let_def)

lemma available_update_superset:
  "set (availablePunchTypes st) \<subseteq> set (availablePunchTypes (updateAvailablePunches st))"
  by (auto simp add: updateAvailablePunches_def Let_def)

lemma update_fixed:
  "(3 \<le> level st \<longrightarrow> ''Left Hook'' \<in> set (availablePunchTypes st)) \<Longrightarrow>
   (5 \<le> level st \<longrightarrow> ''Left Uppercut'' \<in> set (availablePunchTypes st)) \<Longrightarrow>
   (7 \<le> level st \<longrightarrow> ''Left Body'' \<in> set (availablePunchTypes st)) \<Longrightarrow>
   updateAvailablePunches st = st"
  by (simp add: updateAvailablePunches_def Let_def)

lemma update_has:
  "3 \<le> level st \<Longrightarrow> ''Left Hook'' \<in> set (availablePunchTypes (updateAvailablePunches st))"
  "5 \<le> level st \<Longrightarrow>
     ''Left Uppercut'' \<in> set (availablePunchTypes (updateAvailablePunches st))"
  "7 \<le> level st \<Longrightarrow> ''Left Body'' \<in> set (availablePunchTypes (updateAvailablePunches st))"
  by (simp_all add: updateAvailablePunches_def Let_def)

lemma update_idem:
  "updateAvailablePunches (updateAvailablePunches st) = updateAvailablePunches st"
  by (rule update_fixed) (simp_all add: update_has)

lemma unlockTable_mono_gen:
  "l1 \<le> l2 \<Longrightarrow>
   set (b @ (if (3::nat) \<le> l1 then h else []) @ (if 5 \<le> l1 then u else [])
          @ (if 7 \<le> l1 then d else []))
   \<subseteq> set (b @ (if 3 \<le> l2 then h else []) @ (if 5 \<le> l2 then u else [])
            @ (if 7 \<le> l2 then d else []))"
  by auto

lemma unlockTable_mono: "l1 \<le> l2 \<Longrightarrow> set (unlockTable l1) \<subseteq> set (unlockTable l2)"
  unfolding unlockTable_def by (rule unlockTable_mono_gen)

lemma update_table:
  assumes "availablePunchTypes st = unlockTable (level st - 1)"
  shows "availablePunchTypes (updateAvailablePunches st) = unlockTable (level st)"
proof -
  consider "level st < 3" | "level st = 3" | "level st = 4" | "level st = 5" | "level st = 6"
    | "level st = 7" | "level st \<ge> 8"
    by linarith
  then show ?thesis
  proof cases
    case 7
    then have "3 \<le> level st - 1" "5 \<le> level st - 1" "7 \<le> level st - 1"
      "3 \<le> level st" "5 \<le> level st" "7 \<le> level st" by simp_all
    with assms show ?thesis
      by (simp add: updateAvailablePunches_def unlockTable_def Let_def)
  qed (use assms in \<open>simp_all add: updateAvailablePunches_def unlockTable_def Let_def\<close>)
qed

lemma start_state:
  "level (start st now) = 1" "availablePunchTypes (start st now) = [''Jab'', ''Cross'']"
  by (simp_all add: start_def nextChallenge_def resetStats_def updateAvailablePunches_def
      resetCombo_def Let_def)

lemma drillAtLevel_Suc: "drillAtLevel (Suc (Suc n)) = levelUp (drillAtLevel (Suc n))"
  by (simp add: drillAtLevel_def)

lemma drillAtLevel_table:
  "level (drillAtLevel (Suc n)) = Suc n \<and>
   availablePunchTypes (drillAtLevel (Suc n)) = unlockTable (Suc n)"
proof (induction n)
  case 0
  show ?case by (simp add: drillAtLevel_def start_state unlockTable_def)
next
  case (Suc n)
  let ?st = "(drillAtLevel (Suc n))\<lparr>level := level (drillAtLevel (Suc n)) + 1,
               hitsInLevel := 0\<rparr>"
  have "availablePunchTypes ?st = unlockTable (level ?st - 1)" using Suc by simp
  from update_table[OF this] Suc show ?case
    by (simp add: drillAtLevel_Suc levelUp_def)
qed

lemma unlockedPunchSet_table: "unlockedPunchSet l = set (unlockTable l)"
proof (cases l)
  case 0
  then show ?thesis
    by (simp add: unlockedPunchSet_def drillAtLevel_def start_state unlockTable_def)
next
  case (Suc n)
  then show ?thesis by (simp add: unlockedPunchSet_def drillAtLevel_table)
qed

lemma available_nextChallenge [simp]:
  "availablePunchTypes (nextChallenge st now) = availablePunchTypes st"
  by (simp add: nextChallenge_def resetCombo_def Let_def)

lemma available_handleMiss [simp]:
  "availablePunchTypes (handleMiss st now) = availablePunchTypes st"
  by (simp add: handleMiss_def resetCombo_def Let_def)

lemma available_announce:
  "announceCallback st rnd = Some st' \<Longrightarrow> availablePunchTypes st' = availablePunchTypes st"
  by (auto simp add: announceCallback_def showTarget_def Let_def split: if_splits)

lemma available_levelUp:
  "set (availablePunchTypes st) \<subseteq> set (availablePunchTypes (levelUp st))"
  using available_update_superset[of "st\<lparr>level := level st + 1, hitsInLevel := 0\<rparr>"]
  by (simp add: levelUp_def)

lemma available_handleHit:
  "handleHit st pd tHit tNext = Some st' \<Longrightarrow>
     set (availablePunchTypes st) \<subseteq> set (availablePunchTypes st')"
  using available_levelUp
  by (fastforce simp add: handleHit_def Let_def split: option.splits if_splits)

lemma available_checkPunch:
  "checkPunch st d pd tHit tNext = Some st' \<Longrightarrow>
     set (availablePunchTypes st) \<subseteq> set (availablePunchTypes st')"
  using available_handleHit
  by (fastforce simp add: checkPunch_def split: option.splits if_splits)

lemma available_step:
  "step st e = Some st' \<Longrightarrow> set (availablePunchTypes st) \<subseteq> set (availablePunchTypes st')"
  by (cases e) (auto simp add: available_announce split: if_splits dest: available_checkPunch)

lemma available_run:
  "run st es = Some st' \<Longrightarrow> set (availablePunchTypes st) \<subseteq> set (availablePunchTypes st')"
proof (induction es arbitrary: st)
  case Nil
  then show ?case by simp
next
  case (Cons e es)
  then obtain st1 where s: "step st e = Some st1" and r: "run st1 es = Some st'"
    by (auto split: option.splits)
  from available_step[OF s] Cons.IH[OF r] show ?case by blast
qed

lemma table_levelUp:
  assumes "availablePunchTypes st = unlockTable (level st)"
  shows "availablePunchTypes (levelUp st) = unlockTable (level (levelUp st))"
proof -
  let ?st = "st\<lparr>level := level st + 1, hitsInLevel := 0\<rparr>"
  have "availablePunchTypes ?st = unlockTable (level ?st - 1)" using assms by simp
  from update_table[OF this] show ?thesis by (simp add: levelUp_def)
qed

lemma level_nextChallenge [simp]: "level (nextChallenge st now) = level st"
  by (simp add: nextChallenge_def resetCombo_def Let_def)

lemma table_handleHit:
  assumes "availablePunchTypes st = unlockTable (level st)"
    and "handleHit st pd tHit tNext = Some st'"
  shows "availablePunchTypes st' = unlockTable (level st')"
  using assms
  by (auto simp add: handleHit_def Let_def table_levelUp split: option.splits if_splits)

lemma table_step:
  assumes "availablePunchTypes st = unlockTable (level st)" and "step st e = Some st'"
  shows "availablePunchTypes st' = unlockTable (level st')"
proof (cases e)
  case (Announce rnd)
  then show ?thesis
    using assms
    by (auto simp add: announceCallback_def showTarget_def Let_def split: if_splits)
next
  case (ReactionTimeout now)
  then show ?thesis
    using assms by (auto simp add: handleMiss_def resetCombo_def Let_def split: if_splits)
next
  case (Punch d pd tHit tNext)
  then show ?thesis
    using assms table_handleHit
    by (auto simp add: checkPunch_def split: option.splits if_splits)
qed

lemma table_run:
  "availablePunchTypes st = unlockTable (level st) \<Longrightarrow> run st es = Some st' \<Longrightarrow>
     availablePunchTypes st' = unlockTable (level st')"
proof (induction es arbitrary: st)
  case Nil
  then show ?case by simp
next
  case (Cons e es)
  then obtain st1 where s: "step st e = Some st1" and r: "run st1 es = Some st'"
    by (auto split: option.splits)
  from Cons.IH[OF table_step[OF Cons.prems(1) s] r] show ?case .
qed

lemma table_session:
  "run (start st0 now) es = Some st' \<Longrightarrow> availablePunchTypes st' = unlockTable (level st')"
  by (rule table_run) (simp_all add: start_state unlockTable_def)

lemma level1JabDrill_reached:
  "announceCallback (start newFocusMittDrill 0) 0 = Some level1JabDrill"
  by (simp add: announceCallback_def start_def newFocusMittDrill_def resetStats_def
      updateAvailablePunches_def nextChallenge_def showTarget_def getCurrentReactionTime_def
      level1JabDrill_def Let_def baseReactionTime_def minReactionTime_def comboResetDelay_def)

lemma level2_tenth_hit:
  assumes "level st = 2" "hitsInLevel st = 9" "availablePunchTypes st = [''Jab'', ''Cross'']"
    "activePunch st = Some a"
  shows "\<exists>st'. handleHit st pd tHit tNext = Some st' \<and> level st' = 3 \<and> hitsInLevel st' = 0 \<and>
           availablePunchTypes st' = [''Jab'', ''Cross'', ''Left Hook'', ''Right Hook'']"
  using assms
  by (simp add: handleHit_def Let_def hitsPerLevel_def levelUp_def updateAvailablePunches_def
      nextChallenge_def resetCombo_def)

text \<open>
  C5. The set of unlocked punches is monotone in the level; at level \<open>l\<close> it is the unlock
  table (Jab and Cross, the hooks from level 3, the uppercuts from level 5, the body shots
  from level 7); nothing that happens to a drill between start and stop removes a punch,
  and whatever happens in a session, the available punches are the unlock table of the
  level reached; checking the unlocks twice is checking them once; and the tenth hit at
  level 2 makes the level 3 and adds Left Hook and Right Hook.
\<close>

theorem unlocked_punches_monotone:
  "(L1 < L2 \<longrightarrow> unlockedPunchSet L1 \<subseteq> unlockedPunchSet L2)
   \<and> (1 \<le> l \<longrightarrow> level (drillAtLevel l) = l \<and>
                   availablePunchTypes (drillAtLevel l) = unlockTable l)
   \<and> (run st es = Some st' \<longrightarrow>
        set (availablePunchTypes st) \<subseteq> set (availablePunchTypes st'))
   \<and> (run (start stA t0) esA = Some stB \<longrightarrow>
        availablePunchTypes stB = unlockTable (level stB))
   \<and> updateAvailablePunches (updateAvailablePunches st) = updateAvailablePunches st
   \<and> (level st0 = 2 \<and> hitsInLevel st0 = 9 \<and> availablePunchTypes st0 = [''Jab'', ''Cross''] \<and>
       activePunch st0 = Some a \<longrightarrow>
        (\<exists>st1. handleHit st0 pd tHit tNext = Some st1 \<and> level st1 = 3 \<and>
               hitsInLevel st1 = 0 \<and>
               availablePunchTypes st1 =
                 [''Jab'', ''Cross'', ''Left Hook'', ''Right Hook'']))"
proof (intro conjI impI)
  assume "L1 < L2"
  then show "unlockedPunchSet L1 \<subseteq> unlockedPunchSet L2"
    by (simp add: unlockedPunchSet_table unlockTable_mono)
next
  assume "1 \<le> l"
  then obtain n where "l = Suc n" by (cases l) simp_all
  then show "level (drillAtLevel l) = l" "availablePunchTypes (drillAtLevel l) = unlockTable l"
    using drillAtLevel_table[of n] by simp_all
next
  assume "run st es = Some st'"
  then show "set (availablePunchTypes st) \<subseteq> set (availablePunchTypes st')"
    by (rule available_run)
next
  assume "run (start stA t0) esA = Some stB"
  then show "availablePunchTypes stB = unlockTable (level stB)"
    by (rule table_session)
next
  show "updateAvailablePunches (updateAvailablePunches st) = updateAvailablePunches st"
    by (rule update_idem)
next
  assume "level st0 = 2 \<and> hitsInLevel st0 = 9 \<and> availablePunchTypes st0 = [''Jab'', ''Cross''] \<and>
       activePunch st0 = Some a"
  then show "\<exists>st1. handleHit st0 pd tHit tNext = Some st1 \<and> level st1 = 3 \<and>
               hitsInLevel st1 = 0 \<and>
               availablePunchTypes st1 = [''Jab'', ''Cross'', ''Left Hook'', ''Right Hook'']"
    using level2_tenth_hit by blast
qed

lemmas normalized_literals = normalized_names [unfolded punchName.simps]

lemma level1_jab_run:
  "run level1JabDrill [Punch ''Jab'' noScores 10 10] =
     Some \<lparr>activePunch = None, drillTimeout = None, isRunning = True, comboCount = 1,
           comboMultiplier = 1, lastHitTime = 10, level = 1, hitsInLevel = 1, totalHits = 1,
           totalMisses = 0, perfectHits = 0, availablePunchTypes = [''Jab'', ''Cross''],
           announcePending = 1, onScoreCalls = [100]\<rparr>"
  by (simp add: level1JabDrill_def checkPunch_def handleHit_def hitPoints_def noScores_def
      orDefault_def nextChallenge_def hitsPerLevel_def comboResetDelay_def Let_def)

lemma level1JabDrill_fields:
  "availablePunchTypes level1JabDrill = [''Jab'', ''Cross'']"
  "activePunch level1JabDrill = Some ''Jab''"
  "isRunning level1JabDrill" "level level1JabDrill = 1" "hitsInLevel level1JabDrill = 0"
  "comboCount level1JabDrill = 0" "totalHits level1JabDrill = 0"
  by (simp_all add: level1JabDrill_def)

lemma first_session_run:
  "run (start newFocusMittDrill 0) [Announce 0, Punch ''Jab'' noScores 10 10] =
     Some \<lparr>activePunch = None, drillTimeout = None, isRunning = True, comboCount = 1,
           comboMultiplier = 1, lastHitTime = 10, level = 1, hitsInLevel = 1, totalHits = 1,
           totalMisses = 0, perfectHits = 0, availablePunchTypes = [''Jab'', ''Cross''],
           announcePending = 1, onScoreCalls = [100]\<rparr>"
proof -
  have p: "announcePending (start newFocusMittDrill 0) > 0"
    by (simp add: start_def newFocusMittDrill_def resetStats_def updateAvailablePunches_def
        nextChallenge_def Let_def)
  have "step (start newFocusMittDrill 0) (Announce 0) = Some level1JabDrill"
    using p by (simp add: level1JabDrill_reached)
  then show ?thesis
    using level1_jab_run by (simp del: step.simps)
qed

text \<open>The theorem at levels 2 and 3, at level 7, on the first hit of a drill, on a session
  of one announcement and one hit, and on the tenth hit of level 2.\<close>

theorem unlocked_punches_monotone_witness:
  "unlockedPunchSet 2 \<subseteq> unlockedPunchSet 3
   \<and> availablePunchTypes (drillAtLevel 7) =
       [''Jab'', ''Cross'', ''Left Hook'', ''Right Hook'', ''Left Uppercut'',
        ''Right Uppercut'', ''Left Body'', ''Right Body'']
   \<and> (\<exists>st'. run level1JabDrill [Punch ''Jab'' noScores 10 10] = Some st' \<and>
          set (availablePunchTypes level1JabDrill) \<subseteq> set (availablePunchTypes st'))
   \<and> (\<exists>st'. run (start newFocusMittDrill 0) [Announce 0, Punch ''Jab'' noScores 10 10]
                = Some st' \<and>
          availablePunchTypes st' = unlockTable (level st'))
   \<and> (\<exists>st1. handleHit (level1JabDrill\<lparr>level := 2, hitsInLevel := 9\<rparr>) noScores 10 10 = Some st1 \<and>
          level st1 = 3 \<and> hitsInLevel st1 = 0 \<and>
          availablePunchTypes st1 = [''Jab'', ''Cross'', ''Left Hook'', ''Right Hook''])"
  using unlocked_punches_monotone [where ?L1.0 = 2 and ?L2.0 = 3 and l = 7
      and st = level1JabDrill and es = "[Punch ''Jab'' noScores 10 10]"
      and st' = "\<lparr>activePunch = None, drillTimeout = None, isRunning = True, comboCount = 1,
           comboMultiplier = 1, lastHitTime = 10, level = 1, hitsInLevel = 1, totalHits = 1,
           totalMisses = 0, perfectHits = 0, availablePunchTypes = [''Jab'', ''Cross''],
           announcePending = 1, onScoreCalls = [100]\<rparr>"
      and ?st0.0 = "level1JabDrill\<lparr>level := 2, hitsInLevel := 9\<rparr>" and a = "''Jab''"
      and pd = noScores and tHit = 10 and tNext = 10
      and stA = newFocusMittDrill and ?t0.0 = 0
      and esA = "[Announce 0, Punch ''Jab'' noScores 10 10]"
      and stB = "\<lparr>activePunch = None, drillTimeout = None, isRunning = True, comboCount = 1,
           comboMultiplier = 1, lastHitTime = 10, level = 1, hitsInLevel = 1, totalHits = 1,
           totalMisses = 0, perfectHits = 0, availablePunchTypes = [''Jab'', ''Cross''],
           announcePending = 1, onScoreCalls = [100]\<rparr>"]
  by (simp add: level1_jab_run first_session_run unlockTable_def level1JabDrill_fields
      del: run.simps)

section \<open>The arcade classifier and the body-shot targets\<close>

lemma arcade_result_names:
  "fst (detectPunch_arcade cd clock m landmarks width height)
     \<in> insert None (set (map (\<lambda>c. Some (punchName c)) PUNCH_TYPES_arcade))"
proof (cases landmarks)
  case None
  then show ?thesis by (simp add: detectPunch_no_landmarks)
next
  case (Some ls)
  then show ?thesis
    by (simp add: detectPunch_arcade_chain firstOpen_chain PUNCH_TYPES_arcade_def)
qed

lemma arcade_name_not_body:
  assumes "Some p \<in> insert None (set (map (\<lambda>c. Some (punchName c)) PUNCH_TYPES_arcade))"
  shows "p \<noteq> ''Left Body''" "p \<noteq> ''Right Body''"
    "normalizePunchName p \<noteq> normalizePunchName ''Left Body''"
    "normalizePunchName p \<noteq> normalizePunchName ''Right Body''"
  using assms by (auto simp add: PUNCH_TYPES_arcade_def normalized_literals)

lemma exampleFrame_arcade_result:
  "fst (detectPunch_arcade (newPunchCooldown 250) (\<lambda>name. 1000) exampleMeasured
          (Some exampleFrame) 640 480) = Some ''Jab''"
  by (simp add: detectPunch_arcade_chain exampleFrame_firstOpen exampleFrame_length)

text \<open>
  C10. The arcade \<^verbatim>\<open>detectPunch\<close> returns no class or one of the six classes Jab, Cross,
  Left Hook, Right Hook, Left Uppercut, Right Uppercut, never Left Body or Right Body.
  The drill has both body shots among its available punches from level 7 on, and when
  one of them is the active target, \<^verbatim>\<open>checkPunch\<close> with a punch this classifier returned
  leaves the drill as it is: the target is never hit.
\<close>

theorem arcade_never_matches_body_target:
  "fst (detectPunch_arcade cd clock m landmarks width height)
     \<in> insert None (set (map (\<lambda>c. Some (punchName c)) PUNCH_TYPES_arcade))
   \<and> fst (detectPunch_arcade cd clock m landmarks width height) \<noteq> Some ''Left Body''
   \<and> fst (detectPunch_arcade cd clock m landmarks width height) \<noteq> Some ''Right Body''
   \<and> (7 \<le> l \<longrightarrow> ''Left Body'' \<in> unlockedPunchSet l \<and> ''Right Body'' \<in> unlockedPunchSet l)
   \<and> ((activePunch st = Some ''Left Body'' \<or> activePunch st = Some ''Right Body'') \<and>
       fst (detectPunch_arcade cd clock m landmarks width height) = Some p \<longrightarrow>
         checkPunch st p pd tHit tNext = Some st)"
proof -
  let ?r = "fst (detectPunch_arcade cd clock m landmarks width height)"
  have names: "?r \<in> insert None (set (map (\<lambda>c. Some (punchName c)) PUNCH_TYPES_arcade))"
    by (rule arcade_result_names)
  have nb: "?r \<noteq> Some ''Left Body''" "?r \<noteq> Some ''Right Body''"
    using names arcade_name_not_body(1,2) by metis+
  have unlocked: "7 \<le> l \<longrightarrow> ''Left Body'' \<in> unlockedPunchSet l \<and> ''Right Body'' \<in> unlockedPunchSet l"
    by (simp add: unlockedPunchSet_table unlockTable_def)
  have nohit: "checkPunch st p pd tHit tNext = Some st"
    if "activePunch st = Some ''Left Body'' \<or> activePunch st = Some ''Right Body''"
      and "?r = Some p"
    using that names arcade_name_not_body(3,4)[of p]
    by (auto simp add: checkPunch_def)
  from names nb unlocked nohit show ?thesis by blast
qed

text \<open>The theorem at level 7 and at the example frame, which the arcade classifier
  reports as a Jab while the drill waits for a Left Body.\<close>

theorem arcade_never_matches_body_target_witness:
  "''Left Body'' \<in> unlockedPunchSet 7 \<and> ''Right Body'' \<in> unlockedPunchSet 7
   \<and> fst (detectPunch_arcade (newPunchCooldown 250) (\<lambda>name. 1000) exampleMeasured
            (Some exampleFrame) 640 480) = Some ''Jab''
   \<and> checkPunch ((drillAtLevel 7)\<lparr>activePunch := Some ''Left Body''\<rparr>) ''Jab'' noScores 10 10
       = Some ((drillAtLevel 7)\<lparr>activePunch := Some ''Left Body''\<rparr>)"
  using arcade_never_matches_body_target [where l = 7
      and st = "(drillAtLevel 7)\<lparr>activePunch := Some ''Left Body''\<rparr>"
      and cd = "newPunchCooldown 250" and clock = "\<lambda>name. 1000" and m = exampleMeasured
      and landmarks = "Some exampleFrame" and width = 640 and height = 480
      and p = "''Jab''" and pd = noScores and tHit = 10 and tNext = 10]
  by (simp add: exampleFrame_arcade_result)

section \<open>The cooldown gate\<close>

lemma canPunch_open:
  "fst (canPunch cd now punchType) \<longleftrightarrow>
     now - lastPunchTime cd > cooldownMs cd \<or> lastPunchType cd \<noteq> Some punchType"
  by (simp add: canPunch_def Let_def)

lemma canPunch_state:
  "snd (canPunch cd now punchType) =
     (if fst (canPunch cd now punchType)
      then cd\<lparr>lastPunchTime := now, lastPunchType := Some punchType\<rparr> else cd)"
  by (simp add: canPunch_def Let_def)

lemma canPunch_arcade_open:
  "fst (canPunch_arcade cd now punchType) \<longleftrightarrow>
     \<not> sameHand (lastPunchType cd) punchType \<or> now - lastPunchTime cd > cooldownMs cd"
  by (auto simp add: canPunch_arcade_def sameHand_def truthy_def Let_def split: option.splits)

lemma canPunch_arcade_state:
  "snd (canPunch_arcade cd now punchType) =
     (if fst (canPunch_arcade cd now punchType)
      then cd\<lparr>lastPunchTime := now, lastPunchType := Some punchType\<rparr> else cd)"
  by (simp add: canPunch_arcade_def Let_def)

lemma punchName_not_empty: "punchName c \<noteq> []"
  by (cases c) simp_all

lemma punchName_inj: "punchName a = punchName b \<longleftrightarrow> a = b"
  by (cases a; cases b; simp)

lemma hand_of_class:
  "isLeftHand (punchName c) \<longleftrightarrow> c = Jab \<or> c = LeftHook \<or> c = LeftUppercut \<or> c = LeftBody"
  by (cases c) (simp_all add: isLeftHand_def)

lemma sameHand_after_fire:
  "sameHand (Some (punchName c)) (punchName c') \<longleftrightarrow>
     isLeftHand (punchName c) = isLeftHand (punchName c')"
  by (simp add: sameHand_def punchName_not_empty)

lemma firstOpen_none:
  assumes "\<And>c. \<not> (qual c \<and> fst (gate (punchName c)))"
  shows "firstOpen qual gate cd = (None, cd)"
proof -
  have "find (\<lambda>c. qual c \<and> fst (gate (punchName c))) priorityOrder = None"
    using assms by (simp add: find_None_iff)
  then show ?thesis by (simp add: firstOpen_def)
qed

lemma gated_frame_strict:
  assumes "17 \<le> length ls"
    and "\<forall>c'. qualifies (kinematicsOf m ls width height) c' \<longrightarrow> c' = c"
    and "lastPunchType cd = Some (punchName c)"
    and "clock (punchName c) - lastPunchTime cd \<le> cooldownMs cd"
  shows "detectPunch cd clock m (Some ls) width height = (None, cd)"
proof -
  have "\<not> (qualifies (kinematicsOf m ls width height) c' \<and>
           fst (canPunch cd (clock (punchName c')) (punchName c')))" for c'
    using assms(2,3,4) by (auto simp add: canPunch_open)
  then have "firstOpen (qualifies (kinematicsOf m ls width height))
               (\<lambda>name. canPunch cd (clock name) name) cd = (None, cd)"
    by (rule firstOpen_none)
  then show ?thesis using assms(1) by (simp add: detectPunch_strict_chain)
qed

lemma gated_frame_arcade:
  assumes "17 \<le> length ls"
    and "\<forall>c'. qualifies_arcade m ls width c' \<longrightarrow> c' = c"
    and "lastPunchType cd = Some (punchName c)"
    and "clock (punchName c) - lastPunchTime cd \<le> cooldownMs cd"
  shows "detectPunch_arcade cd clock m (Some ls) width height = (None, cd)"
proof -
  have "\<not> (qualifies_arcade m ls width c' \<and>
           fst (canPunch_arcade cd (clock (punchName c')) (punchName c')))" for c'
    using assms(2,3,4) by (auto simp add: canPunch_arcade_open sameHand_after_fire)
  then have "firstOpen (qualifies_arcade m ls width)
               (\<lambda>name. canPunch_arcade cd (clock name) name) cd = (None, cd)"
    by (rule firstOpen_none)
  then show ?thesis using assms(1) by (simp add: detectPunch_arcade_chain)
qed

text \<open>
  C2, as amended. The gate of the strict rule set is keyed by class: it lets a class fire
  if and only if more than the cooldown window has passed since the last fire or the
  last fired class is another one. The gate of the arcade rule set is keyed by hand: it
  lets a class fire if and only if no punch of the same hand fired last or more than
  the window has passed. In both, a gate that opens has (a) more than the window elapsed
  or (b) a last fired class different from the new one. After a class fired, the same
  class is rejected within the window by both gates; within the window the strict gate
  accepts every other class, the arcade gate accepts the classes of the other hand and
  rejects those of the same hand. A frame on which the predicates of no other class than
  the last fired one hold is classified as no punch while the window lasts.
\<close>

theorem cooldown_gate_by_class_or_hand:
  "(fst (canPunch cd now (punchName c)) \<longleftrightarrow>
      now - lastPunchTime cd > cooldownMs cd \<or> lastPunchType cd \<noteq> Some (punchName c))
   \<and> (fst (canPunch_arcade cd now (punchName c)) \<longleftrightarrow>
      \<not> sameHand (lastPunchType cd) (punchName c) \<or> now - lastPunchTime cd > cooldownMs cd)
   \<and> (fst (canPunch_arcade cd now (punchName c)) \<longrightarrow>
      now - lastPunchTime cd > cooldownMs cd \<or> lastPunchType cd \<noteq> Some (punchName c))
   \<and> (fst (canPunch cd t1 (punchName c)) \<and> t2 - t1 \<le> cooldownMs cd \<longrightarrow>
      \<not> fst (canPunch (snd (canPunch cd t1 (punchName c))) t2 (punchName c)))
   \<and> (fst (canPunch cd t1 (punchName c)) \<and> c' \<noteq> c \<longrightarrow>
      fst (canPunch (snd (canPunch cd t1 (punchName c))) t2 (punchName c')))
   \<and> (fst (canPunch_arcade cd t1 (punchName c)) \<and> t2 - t1 \<le> cooldownMs cd \<and>
       isLeftHand (punchName c') = isLeftHand (punchName c) \<longrightarrow>
      \<not> fst (canPunch_arcade (snd (canPunch_arcade cd t1 (punchName c))) t2 (punchName c')))
   \<and> (fst (canPunch_arcade cd t1 (punchName c)) \<and>
       isLeftHand (punchName c') \<noteq> isLeftHand (punchName c) \<longrightarrow>
      fst (canPunch_arcade (snd (canPunch_arcade cd t1 (punchName c))) t2 (punchName c')))
   \<and> (17 \<le> length ls \<and>
       (\<forall>c'. qualifies (kinematicsOf m ls width height) c' \<longrightarrow> c' = c) \<and>
       lastPunchType cd = Some (punchName c) \<and>
       clock (punchName c) - lastPunchTime cd \<le> cooldownMs cd \<longrightarrow>
      detectPunch cd clock m (Some ls) width height = (None, cd))
   \<and> (17 \<le> length ls \<and>
       (\<forall>c'. qualifies_arcade m ls width c' \<longrightarrow> c' = c) \<and>
       lastPunchType cd = Some (punchName c) \<and>
       clock (punchName c) - lastPunchTime cd \<le> cooldownMs cd \<longrightarrow>
      detectPunch_arcade cd clock m (Some ls) width height = (None, cd))"
proof (intro conjI impI)
  show "fst (canPunch cd now (punchName c)) \<longleftrightarrow>
      now - lastPunchTime cd > cooldownMs cd \<or> lastPunchType cd \<noteq> Some (punchName c)"
    by (rule canPunch_open)
next
  show "fst (canPunch_arcade cd now (punchName c)) \<longleftrightarrow>
      \<not> sameHand (lastPunchType cd) (punchName c) \<or> now - lastPunchTime cd > cooldownMs cd"
    by (rule canPunch_arcade_open)
next
  assume "fst (canPunch_arcade cd now (punchName c))"
  then show "now - lastPunchTime cd > cooldownMs cd \<or> lastPunchType cd \<noteq> Some (punchName c)"
    by (auto simp add: canPunch_arcade_open sameHand_def punchName_not_empty)
next
  assume "fst (canPunch cd t1 (punchName c)) \<and> t2 - t1 \<le> cooldownMs cd"
  then show "\<not> fst (canPunch (snd (canPunch cd t1 (punchName c))) t2 (punchName c))"
    by (simp add: canPunch_state canPunch_open)
next
  assume "fst (canPunch cd t1 (punchName c)) \<and> c' \<noteq> c"
  then show "fst (canPunch (snd (canPunch cd t1 (punchName c))) t2 (punchName c'))"
    by (auto simp add: canPunch_state canPunch_open punchName_inj)
next
  assume "fst (canPunch_arcade cd t1 (punchName c)) \<and> t2 - t1 \<le> cooldownMs cd \<and>
       isLeftHand (punchName c') = isLeftHand (punchName c)"
  then show
    "\<not> fst (canPunch_arcade (snd (canPunch_arcade cd t1 (punchName c))) t2 (punchName c'))"
    by (simp add: canPunch_arcade_state canPunch_arcade_open sameHand_after_fire)
next
  assume "fst (canPunch_arcade cd t1 (punchName c)) \<and>
       isLeftHand (punchName c') \<noteq> isLeftHand (punchName c)"
  then show
    "fst (canPunch_arcade (snd (canPunch_arcade cd t1 (punchName c))) t2 (punchName c'))"
    by (simp add: canPunch_arcade_state canPunch_arcade_open sameHand_after_fire)
next
  assume "17 \<le> length ls \<and>
       (\<forall>c'. qualifies (kinematicsOf m ls width height) c' \<longrightarrow> c' = c) \<and>
       lastPunchType cd = Some (punchName c) \<and>
       clock (punchName c) - lastPunchTime cd \<le> cooldownMs cd"
  then show "detectPunch cd clock m (Some ls) width height = (None, cd)"
    using gated_frame_strict by blast
next
  assume "17 \<le> length ls \<and>
       (\<forall>c'. qualifies_arcade m ls width c' \<longrightarrow> c' = c) \<and>
       lastPunchType cd = Some (punchName c) \<and>
       clock (punchName c) - lastPunchTime cd \<le> cooldownMs cd"
  then show "detectPunch_arcade cd clock m (Some ls) width height = (None, cd)"
    using gated_frame_arcade by blast
qed

lemma example_gate_calls:
  "fst (canPunch (newPunchCooldown 250) 1000 ''Jab'')"
  "snd (canPunch (newPunchCooldown 250) 1000 ''Jab'') =
     \<lparr>cooldownMs = 250, lastPunchTime = 1000, lastPunchType = Some ''Jab''\<rparr>"
  "fst (canPunch_arcade (newPunchCooldown 250) 1000 ''Jab'')"
  "snd (canPunch_arcade (newPunchCooldown 250) 1000 ''Jab'') =
     \<lparr>cooldownMs = 250, lastPunchTime = 1000, lastPunchType = Some ''Jab''\<rparr>"
  "cooldownMs (newPunchCooldown 250) = 250"
  "isLeftHand ''Jab''" "\<not> isLeftHand ''Cross''" "isLeftHand ''Left Hook''"
  by (simp_all add: canPunch_def canPunch_arcade_def newPunchCooldown_def isLeftHand_def
      truthy_def)

lemma example_second_gate_calls:
  "\<not> fst (canPunch \<lparr>cooldownMs = 250, lastPunchTime = 1000, lastPunchType = Some ''Jab''\<rparr>
           1100 ''Jab'')"
  "fst (canPunch \<lparr>cooldownMs = 250, lastPunchTime = 1000, lastPunchType = Some ''Jab''\<rparr>
         1100 ''Cross'')"
  "fst (canPunch \<lparr>cooldownMs = 250, lastPunchTime = 1000, lastPunchType = Some ''Jab''\<rparr>
         1100 ''Left Hook'')"
  "\<not> fst (canPunch_arcade
           \<lparr>cooldownMs = 250, lastPunchTime = 1000, lastPunchType = Some ''Jab''\<rparr>
           1100 ''Jab'')"
  "fst (canPunch_arcade
         \<lparr>cooldownMs = 250, lastPunchTime = 1000, lastPunchType = Some ''Jab''\<rparr>
         1100 ''Cross'')"
  "\<not> fst (canPunch_arcade
           \<lparr>cooldownMs = 250, lastPunchTime = 1000, lastPunchType = Some ''Jab''\<rparr>
           1100 ''Left Hook'')"
  by (simp_all add: canPunch_def canPunch_arcade_def isLeftHand_def truthy_def)

lemma shortFrame_qualifies:
  "length (take 17 exampleFrame) = 17"
  "qualifies (kinematicsOf exampleMeasured (take 17 exampleFrame) 640 480) c \<longleftrightarrow> c = Jab"
  "qualifies_arcade exampleMeasured (take 17 exampleFrame) 640 c \<longleftrightarrow> c = Jab"
proof -
  have t: "take 17 exampleFrame =
     (let z = \<lparr>xCoord = 0, yCoord = 0\<rparr> in
      [z, z, z, z, z, z, z, z, z, z, z,
       \<lparr>xCoord = 0.6, yCoord = 0.4\<rparr>, \<lparr>xCoord = 0.4, yCoord = 0.4\<rparr>,
       \<lparr>xCoord = 0.7, yCoord = 0.4\<rparr>, \<lparr>xCoord = 0.4, yCoord = 0.5\<rparr>,
       \<lparr>xCoord = 0.8, yCoord = 0.4\<rparr>, \<lparr>xCoord = 0.42, yCoord = 0.5\<rparr>])"
    by (simp add: exampleFrame_def Let_def)
  show "length (take 17 exampleFrame) = 17" by (simp add: t Let_def)
  have k: "kinematicsOf exampleMeasured (take 17 exampleFrame) 640 480 =
     \<lparr>leftSpeed = 100, rightSpeed = 0, leftAngle = 170, rightAngle = 90,
      leftExtension = 128, rightExtension = 64 / 5, leftWristY = 192, rightWristY = 240,
      leftShoulderY = 192, rightShoulderY = 192, leftHipY = 0, rightHipY = 0\<rparr>"
    unfolding t by (simp add: kinematicsOf_def exampleMeasured_def landmarkAt_def Let_def)
  show "qualifies (kinematicsOf exampleMeasured (take 17 exampleFrame) 640 480) c
          \<longleftrightarrow> c = Jab"
    unfolding k
    by (cases c)
       (simp_all add: MIN_SPEED_def MIN_EXTENSION_def MIN_STRAIGHT_ANGLE_def
          MAX_HOOK_ANGLE_def MIN_UPPERCUT_SPEED_def)
  have r: "extRatio (take 17 exampleFrame) 640 15 11 = Num 1"
    "extRatio (take 17 exampleFrame) 640 16 12 = Num (1 / 10)"
    unfolding t by (simp_all add: extRatio_def jsDiv_def Let_def)
  show "qualifies_arcade exampleMeasured (take 17 exampleFrame) 640 c \<longleftrightarrow> c = Jab"
    by (cases c)
       (simp_all add: r MIN_SPEED_arcade_def MIN_EXT_RATIO_def exampleMeasured_def)
qed

text \<open>The theorem after a Jab fired at 1000 ms with a window of 250 ms, for a second
  Jab, a Cross and a Left Hook at 1100 ms, and for the first 17 landmarks of the example
  frame, on which the predicates of Jab alone hold.\<close>

theorem cooldown_gate_by_class_or_hand_witness:
  "fst (canPunch (newPunchCooldown 250) 1000 ''Jab'')
   \<and> \<not> fst (canPunch (snd (canPunch (newPunchCooldown 250) 1000 ''Jab'')) 1100 ''Jab'')
   \<and> fst (canPunch (snd (canPunch (newPunchCooldown 250) 1000 ''Jab'')) 1100 ''Cross'')
   \<and> fst (canPunch (snd (canPunch (newPunchCooldown 250) 1000 ''Jab'')) 1100 ''Left Hook'')
   \<and> fst (canPunch_arcade (newPunchCooldown 250) 1000 ''Jab'')
   \<and> \<not> fst (canPunch_arcade (snd (canPunch_arcade (newPunchCooldown 250) 1000 ''Jab''))
            1100 ''Jab'')
   \<and> fst (canPunch_arcade (snd (canPunch_arcade (newPunchCooldown 250) 1000 ''Jab''))
          1100 ''Cross'')
   \<and> \<not> fst (canPunch_arcade (snd (canPunch_arcade (newPunchCooldown 250) 1000 ''Jab''))
            1100 ''Left Hook'')
   \<and> fst (detectPunch \<lparr>cooldownMs = 250, lastPunchTime = 1000, lastPunchType = Some ''Jab''\<rparr>
          (\<lambda>name. 1100) exampleMeasured (Some (take 17 exampleFrame)) 640 480) = None
   \<and> fst (detectPunch_arcade
          \<lparr>cooldownMs = 250, lastPunchTime = 1000, lastPunchType = Some ''Jab''\<rparr>
          (\<lambda>name. 1100) exampleMeasured (Some (take 17 exampleFrame)) 640 480) = None"
proof -
  note g = cooldown_gate_by_class_or_hand [where now = 1000 and c = Jab and ?t1.0 = 1000
      and ?t2.0 = 1100 and clock = "\<lambda>name. 1100" and m = exampleMeasured
      and ls = "take 17 exampleFrame" and width = 640 and height = 480]
  show ?thesis
    using g [where cd = "newPunchCooldown 250" and c' = Cross]
      g [where cd = "newPunchCooldown 250" and c' = LeftHook]
      g [where cd = "\<lparr>cooldownMs = 250, lastPunchTime = 1000, lastPunchType = Some ''Jab''\<rparr>"
        and c' = Cross]
    by (simp add: example_gate_calls example_second_gate_calls shortFrame_qualifies
        exampleFrame_length)
qed

text \<open>
  C2 as stated fails on the arcade gate: a Left Hook 100 ms after a Jab is a different
  class, and the gate (window 250 ms) rejects it, both being punches of the left hand.
\<close>

theorem cooldown_gate_counterexample:
  "fst (canPunch_arcade (newPunchCooldown 250) 1000 ''Jab'')
   \<and> ''Left Hook'' \<noteq> ''Jab''
   \<and> \<not> fst (canPunch_arcade (snd (canPunch_arcade (newPunchCooldown 250) 1000 ''Jab''))
            1100 ''Left Hook'')"
  by (simp add: example_gate_calls example_second_gate_calls)

section \<open>The scoring engine\<close>

lemma getConfig_keys:
  "getConfig ''jab'' = jabConfig" "getConfig ''cross'' = crossConfig"
  "getConfig ''hook'' = hookConfig" "getConfig ''left'' = hookConfig"
  "getConfig ''right'' = hookConfig"
  by (simp_all add: getConfig_def SCORING_CONFIG_def)

lemma getConfig_default:
  "punchType \<notin> set [''jab'', ''cross'', ''hook'', ''left'', ''right''] \<Longrightarrow>
     getConfig punchType = jabConfig"
  by (simp add: getConfig_def SCORING_CONFIG_def)

lemma getConfig_cases:
  "getConfig punchType = jabConfig \<or> getConfig punchType = crossConfig
     \<or> getConfig punchType = hookConfig"
  by (simp add: getConfig_def SCORING_CONFIG_def)

lemma getConfig_positive:
  "0 < idealSpeed (getConfig punchType)" "0 < angleTolerance (getConfig punchType)"
  using getConfig_cases[of punchType]
  by (auto simp add: jabConfig_def crossConfig_def hookConfig_def)

lemma speedScore_slow:
  assumes "0 < idealSpeed c" "0 \<le> s" "s < idealSpeed c / 2"
  shows "speedScoreOf c s = 200 * (s / idealSpeed c)"
proof -
  define r where "r = s / idealSpeed c"
  have "0 \<le> r" "r < 1 / 2" using assms by (simp_all add: r_def field_simps)
  then show ?thesis
    unfolding speedScoreOf_def Let_def r_def[symmetric] by simp
qed

lemma speedScore_rising:
  assumes "0 < idealSpeed c" "idealSpeed c / 2 \<le> s" "s \<le> idealSpeed c"
  shows "speedScoreOf c s = 70 + 30 * (s / idealSpeed c)"
proof -
  define r where "r = s / idealSpeed c"
  have "1 / 2 \<le> r" "r \<le> 1" using assms by (simp_all add: r_def field_simps)
  then show ?thesis
    unfolding speedScoreOf_def Let_def r_def[symmetric] by simp
qed

lemma speedScore_fast:
  assumes "0 < idealSpeed c" "1.5 * idealSpeed c < s" "s \<le> 3 * idealSpeed c"
  shows "speedScoreOf c s = 100 - 20 * (s / idealSpeed c)"
proof -
  define r where "r = s / idealSpeed c"
  have "3 / 2 < r" "r \<le> 3" using assms by (simp_all add: r_def field_simps)
  then show ?thesis
    unfolding speedScoreOf_def Let_def r_def[symmetric] by simp
qed

lemma speedScore_floor:
  assumes "0 < idealSpeed c" "3 * idealSpeed c \<le> s"
  shows "speedScoreOf c s = 40"
proof -
  define r where "r = s / idealSpeed c"
  have "3 \<le> r" using assms by (simp add: r_def field_simps)
  then show ?thesis
    unfolding speedScoreOf_def Let_def r_def[symmetric] by simp
qed

lemma speedScore_peak:
  assumes "0 < idealSpeed c"
  shows "speedScoreOf c s = 100 \<longleftrightarrow> s = idealSpeed c"
proof -
  define r where "r = s / idealSpeed c"
  have r1: "r = 1 \<longleftrightarrow> s = idealSpeed c" using assms by (auto simp add: r_def field_simps)
  have "speedScoreOf c s = 100 \<longleftrightarrow> r = 1"
    unfolding speedScoreOf_def Let_def r_def[symmetric] by (auto simp add: max_def min_def)
  with r1 show ?thesis by simp
qed

lemma speedScore_beyond_mono:
  assumes i: "0 < idealSpeed c" and "1.5 * idealSpeed c < s1" "s1 \<le> s2"
  shows "speedScoreOf c s2 \<le> speedScoreOf c s1"
proof -
  have d: "s1 / idealSpeed c \<le> s2 / idealSpeed c"
    using assms by (simp add: divide_right_mono)
  consider "s2 \<le> 3 * idealSpeed c" | "s1 \<le> 3 * idealSpeed c" "3 * idealSpeed c < s2"
    | "3 * idealSpeed c < s1"
    by linarith
  then show ?thesis
  proof cases
    case 1
    with assms d show ?thesis by (simp add: speedScore_fast)
  next
    case 2
    then have "s1 / idealSpeed c \<le> 3" using i by (simp add: field_simps)
    with 2 assms show ?thesis by (simp add: speedScore_fast speedScore_floor)
  next
    case 3
    with assms show ?thesis by (simp add: speedScore_floor)
  qed
qed

lemma formScore_inside:
  assumes "0 < angleTolerance c" "\<bar>a - idealAngle c\<bar> \<le> angleTolerance c"
  shows "formScoreOf c a = 100 - 20 * (\<bar>a - idealAngle c\<bar> / angleTolerance c)"
proof -
  define q where "q = \<bar>a - idealAngle c\<bar> / angleTolerance c"
  have "0 \<le> q" "q \<le> 1" using assms by (simp_all add: q_def field_simps)
  then show ?thesis
    unfolding formScoreOf_def Let_def q_def[symmetric] using assms(2) by simp
qed

lemma formScore_outside:
  assumes "angleTolerance c < \<bar>a - idealAngle c\<bar>"
  shows "formScoreOf c a < 80"
proof -
  define e where "e = \<bar>a - idealAngle c\<bar> - angleTolerance c"
  have "0 < e" using assms by (simp add: e_def)
  then show ?thesis
    unfolding formScoreOf_def Let_def e_def[symmetric] using assms by simp
qed

lemma formScore_peak:
  assumes "0 < angleTolerance c"
  shows "formScoreOf c a = 100 \<longleftrightarrow> a = idealAngle c"
proof (cases "\<bar>a - idealAngle c\<bar> \<le> angleTolerance c")
  case True
  have "\<bar>a - idealAngle c\<bar> / angleTolerance c = 0 \<longleftrightarrow> a = idealAngle c"
    using assms by simp
  then show ?thesis using assms True by (simp add: formScore_inside)
next
  case False
  then have "formScoreOf c a < 80" by (simp add: formScore_outside)
  moreover have "a \<noteq> idealAngle c" using False assms by auto
  ultimately show ?thesis by simp
qed

lemma formScore_band:
  assumes "0 < angleTolerance c"
  shows "formScoreOf c a \<ge> 80 \<longleftrightarrow> \<bar>a - idealAngle c\<bar> \<le> angleTolerance c"
proof (cases "\<bar>a - idealAngle c\<bar> \<le> angleTolerance c")
  case True
  then have "\<bar>a - idealAngle c\<bar> / angleTolerance c \<le> 1"
    using assms by (simp add: field_simps)
  then have "100 - 20 * (\<bar>a - idealAngle c\<bar> / angleTolerance c) \<ge> 80" by linarith
  then show ?thesis using assms True by (simp only: formScore_inside simp_thms)
next
  case False
  then have "formScoreOf c a < 80" by (simp add: formScore_outside)
  then show ?thesis using False by simp
qed

lemma calculateScore_subscores:
  assumes "punchType \<noteq> []" "punchType \<noteq> ''none''"
  shows "resSpeedScore (calculateScore (Some punchType) speed angle) =
           mathRound (speedScoreOf (getConfig punchType) speed)"
    "resFormScore (calculateScore (Some punchType) speed angle) =
           mathRound (formScoreOf (getConfig punchType) angle)"
  using assms by (simp_all add: calculateScore_def truthy_def Let_def)

text \<open>
  C3, as amended. For every punch type, with the ideal speed of its configuration, the
  speed sub-score (which does not depend on the angle; \<^verbatim>\<open>calculateScore\<close> returns it
  rounded) strictly increases with the speed below half the ideal speed, and again from
  half the ideal speed up to the ideal speed, where it is 100; beyond 1.5 times the ideal
  speed it strictly decreases up to 3 times the ideal speed, is 40 from there on, and so
  never increases.
\<close>

theorem speedScore_peaked:
  "(punchType \<noteq> [] \<and> punchType \<noteq> ''none'' \<longrightarrow>
      resSpeedScore (calculateScore (Some punchType) speed angle) =
        mathRound (speedScoreOf (getConfig punchType) speed))
   \<and> (0 \<le> s1 \<and> s1 < s2 \<and> s2 < idealSpeed (getConfig punchType) / 2 \<longrightarrow>
        speedScoreOf (getConfig punchType) s1 < speedScoreOf (getConfig punchType) s2)
   \<and> (idealSpeed (getConfig punchType) / 2 \<le> s1 \<and> s1 < s2 \<and>
       s2 \<le> idealSpeed (getConfig punchType) \<longrightarrow>
        speedScoreOf (getConfig punchType) s1 < speedScoreOf (getConfig punchType) s2)
   \<and> speedScoreOf (getConfig punchType) (idealSpeed (getConfig punchType)) = 100
   \<and> (1.5 * idealSpeed (getConfig punchType) < s1 \<and> s1 < s2 \<and>
       s2 \<le> 3 * idealSpeed (getConfig punchType) \<longrightarrow>
        speedScoreOf (getConfig punchType) s2 < speedScoreOf (getConfig punchType) s1)
   \<and> (3 * idealSpeed (getConfig punchType) \<le> s \<longrightarrow>
        speedScoreOf (getConfig punchType) s = 40)
   \<and> (1.5 * idealSpeed (getConfig punchType) < s1 \<and> s1 \<le> s2 \<longrightarrow>
        speedScoreOf (getConfig punchType) s2 \<le> speedScoreOf (getConfig punchType) s1)"
proof -
  let ?c = "getConfig punchType"
  have i: "0 < idealSpeed ?c" by (rule getConfig_positive)
  have a: "punchType \<noteq> [] \<and> punchType \<noteq> ''none'' \<longrightarrow>
      resSpeedScore (calculateScore (Some punchType) speed angle) =
        mathRound (speedScoreOf ?c speed)"
    by (simp add: calculateScore_subscores)
  have b: "0 \<le> s1 \<and> s1 < s2 \<and> s2 < idealSpeed ?c / 2 \<longrightarrow>
        speedScoreOf ?c s1 < speedScoreOf ?c s2"
    using i by (simp add: speedScore_slow divide_strict_right_mono)
  have c: "idealSpeed ?c / 2 \<le> s1 \<and> s1 < s2 \<and> s2 \<le> idealSpeed ?c \<longrightarrow>
        speedScoreOf ?c s1 < speedScoreOf ?c s2"
    using i by (simp add: speedScore_rising divide_strict_right_mono)
  have d: "speedScoreOf ?c (idealSpeed ?c) = 100"
    using i by (simp add: speedScore_peak)
  have e: "1.5 * idealSpeed ?c < s1 \<and> s1 < s2 \<and> s2 \<le> 3 * idealSpeed ?c \<longrightarrow>
        speedScoreOf ?c s2 < speedScoreOf ?c s1"
    using i by (simp add: speedScore_fast divide_strict_right_mono)
  have f: "3 * idealSpeed ?c \<le> s \<longrightarrow> speedScoreOf ?c s = 40"
    using i by (simp add: speedScore_floor)
  have g: "1.5 * idealSpeed ?c < s1 \<and> s1 \<le> s2 \<longrightarrow> speedScoreOf ?c s2 \<le> speedScoreOf ?c s1"
    using i speedScore_beyond_mono[of ?c s1 s2] by simp
  from a b c d e f g show ?thesis by blast
qed

lemma jab_speed_scores:
  "speedScoreOf (getConfig ''jab'') 30 = 40" "speedScoreOf (getConfig ''jab'') 60 = 80"
  "speedScoreOf (getConfig ''jab'') 72 = 96" "speedScoreOf (getConfig ''jab'') 75 = 85"
  "speedScoreOf (getConfig ''jab'') 120 = 94" "speedScoreOf (getConfig ''jab'') 150 = 100"
  "speedScoreOf (getConfig ''jab'') 300 = 60" "speedScoreOf (getConfig ''jab'') 360 = 52"
  "speedScoreOf (getConfig ''jab'') 450 = 40" "speedScoreOf (getConfig ''jab'') 600 = 40"
  "idealSpeed (getConfig ''jab'') = 150"
  by (simp_all add: getConfig_keys jabConfig_def speedScoreOf_def)

text \<open>The theorem for a jab (ideal speed 150): at speeds 30 and 60, at 75 and 120, at 300
  and 360, and at 450 and 600.\<close>

theorem speedScore_peaked_witness:
  "speedScoreOf (getConfig ''jab'') 30 < speedScoreOf (getConfig ''jab'') 60
   \<and> speedScoreOf (getConfig ''jab'') 75 < speedScoreOf (getConfig ''jab'') 120
   \<and> speedScoreOf (getConfig ''jab'') 360 < speedScoreOf (getConfig ''jab'') 300
   \<and> speedScoreOf (getConfig ''jab'') 600 = 40
   \<and> speedScoreOf (getConfig ''jab'') 600 \<le> speedScoreOf (getConfig ''jab'') 450
   \<and> resSpeedScore (calculateScore (Some ''jab'') 120 165) =
       mathRound (speedScoreOf (getConfig ''jab'') 120)"
  using
    speedScore_peaked [where punchType = "''jab''" and ?s1.0 = 30 and ?s2.0 = 60 and s = 600
      and speed = 120 and angle = 165]
    speedScore_peaked [where punchType = "''jab''" and ?s1.0 = 75 and ?s2.0 = 120 and s = 600
      and speed = 120 and angle = 165]
    speedScore_peaked [where punchType = "''jab''" and ?s1.0 = 300 and ?s2.0 = 360 and s = 600
      and speed = 120 and angle = 165]
    speedScore_peaked [where punchType = "''jab''" and ?s1.0 = 450 and ?s2.0 = 600 and s = 600
      and speed = 120 and angle = 165]
  by (simp add: jab_speed_scores)

text \<open>
  C3 as stated fails for a jab (ideal speed 150): beyond 1.5 times the ideal speed the
  sub-score is 40 at speed 450 and still 40 at speed 600, so it does not strictly
  decrease there; and on the way from 0 to the ideal speed it falls from 96 at speed 72
  to 85 at speed 75. The values \<^verbatim>\<open>calculateScore\<close> returns are the same.
\<close>

theorem speedScore_peaked_counterexample:
  "1.5 * idealSpeed (getConfig ''jab'') < 450
   \<and> speedScoreOf (getConfig ''jab'') 450 = 40 \<and> speedScoreOf (getConfig ''jab'') 600 = 40
   \<and> resSpeedScore (calculateScore (Some ''jab'') 450 165) = 40
   \<and> resSpeedScore (calculateScore (Some ''jab'') 600 165) = 40
   \<and> speedScoreOf (getConfig ''jab'') 72 = 96 \<and> speedScoreOf (getConfig ''jab'') 75 = 85
   \<and> resSpeedScore (calculateScore (Some ''jab'') 72 165) = 96
   \<and> resSpeedScore (calculateScore (Some ''jab'') 75 165) = 85"
  by (simp add: jab_speed_scores calculateScore_subscores mathRound_def)

text \<open>
  C8, as amended. \<^verbatim>\<open>SCORING_CONFIG\<close> has a configuration of its own for the keys
  \<^verbatim>\<open>jab\<close>, \<^verbatim>\<open>cross\<close> and \<^verbatim>\<open>hook\<close> (\<^verbatim>\<open>left\<close> and \<^verbatim>\<open>right\<close> carry the values of
  \<^verbatim>\<open>hook\<close>); every other punch type, uppercuts and body shots among them, is scored with
  the configuration of the jab. The sub-scores are computed from the configuration
  chosen: the speed sub-score is 100 exactly at its ideal speed, the form sub-score is
  100 exactly at its ideal angle and at least 80 exactly within its tolerance band.
\<close>

theorem score_uses_chosen_config:
  "getConfig ''jab'' = jabConfig \<and> getConfig ''cross'' = crossConfig
   \<and> getConfig ''hook'' = hookConfig \<and> getConfig ''left'' = hookConfig
   \<and> getConfig ''right'' = hookConfig
   \<and> (punchType \<notin> set [''jab'', ''cross'', ''hook'', ''left'', ''right''] \<longrightarrow>
        getConfig punchType = jabConfig)
   \<and> (punchType \<noteq> [] \<and> punchType \<noteq> ''none'' \<longrightarrow>
        resSpeedScore (calculateScore (Some punchType) speed angle) =
          mathRound (speedScoreOf (getConfig punchType) speed) \<and>
        resFormScore (calculateScore (Some punchType) speed angle) =
          mathRound (formScoreOf (getConfig punchType) angle))
   \<and> (speedScoreOf (getConfig punchType) speed = 100 \<longleftrightarrow>
        speed = idealSpeed (getConfig punchType))
   \<and> (formScoreOf (getConfig punchType) angle = 100 \<longleftrightarrow>
        angle = idealAngle (getConfig punchType))
   \<and> (formScoreOf (getConfig punchType) angle \<ge> 80 \<longleftrightarrow>
        \<bar>angle - idealAngle (getConfig punchType)\<bar> \<le> angleTolerance (getConfig punchType))"
proof -
  have a: "punchType \<notin> set [''jab'', ''cross'', ''hook'', ''left'', ''right''] \<longrightarrow>
        getConfig punchType = jabConfig"
    using getConfig_default by blast
  have b: "punchType \<noteq> [] \<and> punchType \<noteq> ''none'' \<longrightarrow>
        resSpeedScore (calculateScore (Some punchType) speed angle) =
          mathRound (speedScoreOf (getConfig punchType) speed) \<and>
        resFormScore (calculateScore (Some punchType) speed angle) =
          mathRound (formScoreOf (getConfig punchType) angle)"
    by (simp add: calculateScore_subscores)
  note c = speedScore_peak [OF getConfig_positive(1), of punchType speed]
  note d = formScore_peak [OF getConfig_positive(2), of punchType angle]
  note e = formScore_band [OF getConfig_positive(2), of punchType angle]
  from a b c d e getConfig_keys show ?thesis by blast
qed

lemma config_values:
  "idealSpeed jabConfig = 150" "idealAngle jabConfig = 165" "angleTolerance jabConfig = 25"
  "idealSpeed crossConfig = 180" "idealAngle crossConfig = 165"
  "angleTolerance crossConfig = 25"
  "idealSpeed hookConfig = 140" "idealAngle hookConfig = 90" "angleTolerance hookConfig = 30"
  by (simp_all add: jabConfig_def crossConfig_def hookConfig_def)

text \<open>The theorem for a hook at speed 140 and angle 90, its ideals, and for the type
  \<^verbatim>\<open>uppercut\<close>, which is no key of the table.\<close>

theorem score_uses_chosen_config_witness:
  "getConfig ''uppercut'' = jabConfig
   \<and> resSpeedScore (calculateScore (Some ''hook'') 140 90) =
       mathRound (speedScoreOf (getConfig ''hook'') 140)
   \<and> resFormScore (calculateScore (Some ''hook'') 140 90) =
       mathRound (formScoreOf (getConfig ''hook'') 90)
   \<and> speedScoreOf (getConfig ''hook'') 140 = 100
   \<and> formScoreOf (getConfig ''hook'') 90 = 100"
  using
    score_uses_chosen_config [where punchType = "''uppercut''" and speed = 140 and angle = 90]
    score_uses_chosen_config [where punchType = "''hook''" and speed = 140 and angle = 90]
  by (simp add: getConfig_keys config_values)

text \<open>
  C8 as stated fails for the uppercut and the body shot: neither is a key of
  \<^verbatim>\<open>SCORING_CONFIG\<close>, and both are scored against the ideals of the jab, a straight
  punch: full marks for speed 150 and a nearly straight arm of 165 degrees.
\<close>

theorem score_uses_chosen_config_counterexample:
  "getConfig ''uppercut'' = getConfig ''jab'' \<and> getConfig ''body'' = getConfig ''jab''
   \<and> idealSpeed (getConfig ''uppercut'') = 150 \<and> idealAngle (getConfig ''uppercut'') = 165
   \<and> calculateScore (Some ''uppercut'') 150 165 = calculateScore (Some ''jab'') 150 165
   \<and> calculateScore (Some ''body'') 150 165 = calculateScore (Some ''jab'') 150 165
   \<and> resSpeedScore (calculateScore (Some ''uppercut'') 150 165) = 100
   \<and> resFormScore (calculateScore (Some ''uppercut'') 150 165) = 100"
proof -
  have k: "getConfig ''uppercut'' = jabConfig" "getConfig ''body'' = jabConfig"
    by (simp_all add: getConfig_default)
  have s: "speedScoreOf jabConfig 150 = 100" "formScoreOf jabConfig 165 = 100"
    by (simp_all add: speedScoreOf_def formScoreOf_def jabConfig_def)
  have c: "calculateScore (Some ''uppercut'') 150 165 = calculateScore (Some ''jab'') 150 165"
    "calculateScore (Some ''body'') 150 165 = calculateScore (Some ''jab'') 150 165"
    by (simp_all add: calculateScore_def truthy_def k getConfig_keys)
  show ?thesis
    by (simp add: k getConfig_keys config_values c calculateScore_subscores s mathRound_def)
qed

section \<open>The combo multipliers\<close>

lemma calculateComboMultiplier_mono:
  "n \<le> n' \<Longrightarrow> calculateComboMultiplier n \<le> calculateComboMultiplier n'"
  by (simp add: calculateComboMultiplier_def)

lemma handleHit_multiplier:
  assumes "activePunch st = Some a" "tNext - tHit \<le> comboResetDelay"
  shows "\<exists>st'. handleHit st pd tHit tNext = Some st' \<and>
           comboCount st' = comboCount st + 1 \<and>
           comboMultiplier st' = 1 + real ((comboCount st + 1) div 3) / 2 \<and>
           onScoreCalls st' =
             onScoreCalls st @ [hitPoints a pd (1 + real ((comboCount st + 1) div 3) / 2)]"
proof -
  have n: "comboCount (nextChallenge s tNext) = comboCount s"
    "comboMultiplier (nextChallenge s tNext) = comboMultiplier s"
    "onScoreCalls (nextChallenge s tNext) = onScoreCalls s"
    if "lastHitTime s = tHit" for s
    using that assms(2) by (simp_all add: nextChallenge_def Let_def)
  have l: "comboCount (levelUp s) = comboCount s" "comboMultiplier (levelUp s) = comboMultiplier s"
    "onScoreCalls (levelUp s) = onScoreCalls s" "lastHitTime (levelUp s) = lastHitTime s"
    for s
    by (simp_all add: levelUp_def updateAvailablePunches_def Let_def)
  show ?thesis
    using assms(1) by (simp add: handleHit_def Let_def n l)
qed

text \<open>
  C6, as amended. \<^verbatim>\<open>calculateComboMultiplier\<close> of the scoring engine is a step function
  of the count: 1.0 below 3, then 1.2, 1.5, 1.8 and 2.0, and 2.5 from 25 on, which it
  never exceeds. The multiplier \<^verbatim>\<open>handleHit\<close> applies to the points of a hit is another
  one: 1 plus half the integer part of a third of the count, which is 1.0 below 3, is a
  step function too, and has no cap.
\<close>

theorem combo_multipliers:
  "(n < 3 \<longrightarrow> calculateComboMultiplier n = 1)
   \<and> (3 \<le> n \<and> n < 5 \<longrightarrow> calculateComboMultiplier n = 1.2)
   \<and> (5 \<le> n \<and> n < 10 \<longrightarrow> calculateComboMultiplier n = 1.5)
   \<and> (10 \<le> n \<and> n < 15 \<longrightarrow> calculateComboMultiplier n = 1.8)
   \<and> (15 \<le> n \<and> n < 25 \<longrightarrow> calculateComboMultiplier n = 2)
   \<and> (25 \<le> n \<longrightarrow> calculateComboMultiplier n = 2.5)
   \<and> calculateComboMultiplier n \<le> 2.5
   \<and> (n \<le> n' \<longrightarrow> calculateComboMultiplier n \<le> calculateComboMultiplier n')
   \<and> (activePunch st = Some a \<and> tNext - tHit \<le> comboResetDelay \<longrightarrow>
        (\<exists>st'. handleHit st pd tHit tNext = Some st' \<and>
           comboCount st' = comboCount st + 1 \<and>
           comboMultiplier st' = 1 + real ((comboCount st + 1) div 3) / 2 \<and>
           onScoreCalls st' =
             onScoreCalls st @ [hitPoints a pd (1 + real ((comboCount st + 1) div 3) / 2)]))
   \<and> (n < 3 \<longrightarrow> 1 + real (n div 3) / 2 = 1)
   \<and> (2 * nat \<lceil>bound\<rceil> \<le> n div 3 \<longrightarrow> bound < 1 + real (n div 3) / 2)"
proof -
  have steps: "(n < 3 \<longrightarrow> calculateComboMultiplier n = 1)
   \<and> (3 \<le> n \<and> n < 5 \<longrightarrow> calculateComboMultiplier n = 1.2)
   \<and> (5 \<le> n \<and> n < 10 \<longrightarrow> calculateComboMultiplier n = 1.5)
   \<and> (10 \<le> n \<and> n < 15 \<longrightarrow> calculateComboMultiplier n = 1.8)
   \<and> (15 \<le> n \<and> n < 25 \<longrightarrow> calculateComboMultiplier n = 2)
   \<and> (25 \<le> n \<longrightarrow> calculateComboMultiplier n = 2.5)
   \<and> calculateComboMultiplier n \<le> 2.5"
    by (simp add: calculateComboMultiplier_def)
  have mono: "n \<le> n' \<longrightarrow> calculateComboMultiplier n \<le> calculateComboMultiplier n'"
    by (simp add: calculateComboMultiplier_mono)
  have hit: "activePunch st = Some a \<and> tNext - tHit \<le> comboResetDelay \<longrightarrow>
        (\<exists>st'. handleHit st pd tHit tNext = Some st' \<and>
           comboCount st' = comboCount st + 1 \<and>
           comboMultiplier st' = 1 + real ((comboCount st + 1) div 3) / 2 \<and>
           onScoreCalls st' =
             onScoreCalls st @ [hitPoints a pd (1 + real ((comboCount st + 1) div 3) / 2)])"
    using handleHit_multiplier by blast
  have low: "n < 3 \<longrightarrow> 1 + real (n div 3) / 2 = 1" by simp
  have unbounded: "2 * nat \<lceil>bound\<rceil> \<le> n div 3 \<longrightarrow> bound < 1 + real (n div 3) / 2"
  proof
    assume h: "2 * nat \<lceil>bound\<rceil> \<le> n div 3"
    have "bound \<le> real (nat \<lceil>bound\<rceil>)" by linarith
    also have "\<dots> \<le> real (n div 3) / 2" using h by linarith
    finally show "bound < 1 + real (n div 3) / 2" by linarith
  qed
  from steps mono hit low unbounded show ?thesis by blast
qed

lemma jab_hit_step:
  assumes "activePunch st = Some ''Jab''" "isRunning st"
  shows "step st jabHit = handleHit st noScores 10 10"
  using assms by (simp add: jabHit_def checkPunch_def)

lemma announce_jab_step:
  assumes "announcePending st > 0" "isRunning st" "availablePunchTypes st \<noteq> []"
    "hd (availablePunchTypes st) = ''Jab''"
  shows "step st (Announce 0) =
           Some (st\<lparr>announcePending := announcePending st - 1, activePunch := Some ''Jab'',
                    drillTimeout := Some (getCurrentReactionTime st)\<rparr>)"
  using assms
  by (cases "availablePunchTypes st")
     (simp_all add: announceCallback_def showTarget_def getCurrentReactionTime_def Let_def)

lemma twelveJabs_run:
  "run level1JabDrill twelveJabs =
     Some \<lparr>activePunch = None, drillTimeout = None, isRunning = True, comboCount = 12,
           comboMultiplier = 3, lastHitTime = 10, level = 2, hitsInLevel = 2, totalHits = 12,
           totalMisses = 0, perfectHits = 0, availablePunchTypes = [''Jab'', ''Cross''],
           announcePending = 1,
           onScoreCalls = [100, 100, 150, 150, 150, 200, 200, 200, 250, 250, 250, 300]\<rparr>"
  unfolding twelveJabs_def level1JabDrill_def
  by (simp add: jab_hit_step announce_jab_step handleHit_def hitPoints_def noScores_def
      orDefault_def nextChallenge_def hitsPerLevel_def comboResetDelay_def levelUp_def
      updateAvailablePunches_def getCurrentReactionTime_def baseReactionTime_def
      minReactionTime_def Let_def del: step.simps)

lemma level1_first_hit:
  "handleHit level1JabDrill noScores 10 10 =
     Some \<lparr>activePunch = None, drillTimeout = None, isRunning = True, comboCount = 1,
           comboMultiplier = 1, lastHitTime = 10, level = 1, hitsInLevel = 1, totalHits = 1,
           totalMisses = 0, perfectHits = 0, availablePunchTypes = [''Jab'', ''Cross''],
           announcePending = 1, onScoreCalls = [100]\<rparr>"
  by (simp add: level1JabDrill_def handleHit_def hitPoints_def noScores_def
      orDefault_def nextChallenge_def hitsPerLevel_def comboResetDelay_def Let_def)

text \<open>The theorem at the counts 2, 4, 7, 12, 20 and 27, at the bound 2.5, and on the
  first hit of a drill.\<close>

theorem combo_multipliers_witness:
  "calculateComboMultiplier 2 = 1 \<and> calculateComboMultiplier 4 = 1.2
   \<and> calculateComboMultiplier 7 = 1.5 \<and> calculateComboMultiplier 12 = 1.8
   \<and> calculateComboMultiplier 20 = 2 \<and> calculateComboMultiplier 27 = 2.5
   \<and> calculateComboMultiplier 2 \<le> calculateComboMultiplier 27
   \<and> (2.5::real) < 1 + real ((27::nat) div 3) / 2
   \<and> (\<exists>st'. handleHit level1JabDrill noScores 10 10 = Some st' \<and> comboCount st' = 1 \<and>
          comboMultiplier st' = 1 \<and> onScoreCalls st' = [100])"
proof -
  have c: "\<lceil>5 / 2 :: real\<rceil> = 3" by linarith
  note m = combo_multipliers [where st = level1JabDrill and a = "''Jab''" and pd = noScores
      and tHit = 10 and tNext = 10 and bound = "5 / 2"]
  show ?thesis
    using m [where n = 2 and n' = 27] m [where n = 4 and n' = 27] m [where n = 7 and n' = 27]
      m [where n = 12 and n' = 27] m [where n = 20 and n' = 27] m [where n = 27 and n' = 27]
    by (simp add: level1JabDrill_fields comboResetDelay_def c level1_first_hit)
qed

text \<open>
  C6 as stated fails for the multiplier applied to the points of a hit: on the twelfth
  hit in a row \<^verbatim>\<open>handleHit\<close> multiplies by 3, above the cap 2.5 (and the points are 300),
  where \<^verbatim>\<open>calculateComboMultiplier\<close> gives 1.8.
\<close>

theorem combo_multipliers_counterexample:
  "map_option comboCount (run level1JabDrill twelveJabs) = Some 12
   \<and> map_option comboMultiplier (run level1JabDrill twelveJabs) = Some 3
   \<and> map_option (\<lambda>st. last (onScoreCalls st)) (run level1JabDrill twelveJabs) = Some 300
   \<and> calculateComboMultiplier 12 = 1.8
   \<and> (2.5::real) < 3"
  by (simp add: twelveJabs_run calculateComboMultiplier_def)

section \<open>The points of a hit\<close>

lemma category_bonus_of_name:
  "hitPoints (punchName c) pd multiplier =
     \<lfloor>(100 + tierBonus pd + categoryBonus c) * multiplier\<rfloor>"
  by (cases c) (simp_all add: hitPoints_def tierBonus_def Let_def)

lemma tierBonus_values: "tierBonus pd = 0 \<or> tierBonus pd = 25 \<or> tierBonus pd = 50"
  by (simp add: tierBonus_def Let_def)

lemma first_jab_hit:
  assumes "isRunning st" "activePunch st = Some ''Jab''" "comboCount st = 0"
    "hitsInLevel st = 0" "normalizePunchName detectedPunch = normalizePunchName ''Jab''"
    "tNext - tHit \<le> comboResetDelay"
  shows "\<exists>st'. checkPunch st detectedPunch pd tHit tNext = Some st' \<and> hitsInLevel st' = 1 \<and>
           comboCount st' = 1 \<and> totalHits st' = totalHits st + 1 \<and>
           level st' = level st \<and>
           onScoreCalls st' = onScoreCalls st @ [100 + \<lfloor>tierBonus pd\<rfloor>]"
proof -
  have p: "hitPoints ''Jab'' pd 1 = 100 + \<lfloor>tierBonus pd\<rfloor>"
    using category_bonus_of_name[of Jab pd 1] by simp
  have "checkPunch st detectedPunch pd tHit tNext = handleHit st pd tHit tNext"
    using assms by (simp add: checkPunch_def)
  then show ?thesis
    using assms p
    by (simp add: handleHit_def Let_def hitsPerLevel_def nextChallenge_def)
qed

lemma handleHit_points:
  assumes "activePunch st = Some a"
  shows "\<exists>st'. handleHit st pd tHit tNext = Some st' \<and>
           onScoreCalls st' =
             onScoreCalls st @ [hitPoints a pd (1 + real ((comboCount st + 1) div 3) / 2)]"
proof -
  have n: "onScoreCalls (nextChallenge s tNext) = onScoreCalls s" for s
    by (simp add: nextChallenge_def resetCombo_def Let_def)
  have l: "onScoreCalls (levelUp s) = onScoreCalls s" for s
    by (simp add: levelUp_def updateAvailablePunches_def Let_def)
  show ?thesis
    using assms by (simp add: handleHit_def Let_def n l)
qed

text \<open>
  C4, as amended. On a hit \<^verbatim>\<open>handleHit\<close> awards the integer part of 100 plus the tier
  bonus (50 for an average quality above 90, 25 above 75, else 0) plus the category
  bonus (10 for hooks, 20 for uppercuts, 15 for body shots, 0 for straight punches),
  times the combo multiplier. At a drill with no hit yet, a punch matching the active
  target Jab is a hit that leaves \<open>hitsInLevel = 1\<close> and \<open>comboCount = 1\<close> (the next
  challenge being scheduled within the combo reset delay) and awards 100 plus the tier
  bonus: exactly 100 points when the average quality is at most 75, as it is when the
  punch comes with no scores.
\<close>

theorem hit_points:
  "(activePunch st = Some (punchName c) \<longrightarrow>
      (\<exists>st'. handleHit st pd tHit tNext = Some st' \<and>
         onScoreCalls st' = onScoreCalls st @
           [\<lfloor>(100 + tierBonus pd + categoryBonus c)
               * (1 + real ((comboCount st + 1) div 3) / 2)\<rfloor>]))
   \<and> (tierBonus pd = 0 \<or> tierBonus pd = 25 \<or> tierBonus pd = 50)
   \<and> (c \<noteq> Jab \<and> c \<noteq> Cross \<longrightarrow> categoryBonus Jab < categoryBonus c \<and>
                                    categoryBonus Cross < categoryBonus c)
   \<and> (isRunning st \<and> activePunch st = Some ''Jab'' \<and> comboCount st = 0 \<and>
       hitsInLevel st = 0 \<and>
       normalizePunchName detectedPunch = normalizePunchName ''Jab'' \<and>
       tNext - tHit \<le> comboResetDelay \<longrightarrow>
      (\<exists>st'. checkPunch st detectedPunch pd tHit tNext = Some st' \<and> hitsInLevel st' = 1 \<and>
         comboCount st' = 1 \<and> totalHits st' = totalHits st + 1 \<and> level st' = level st \<and>
         onScoreCalls st' = onScoreCalls st @ [100 + \<lfloor>tierBonus pd\<rfloor>]))
   \<and> ((orDefault (speedScore pd) 50 + orDefault (formScore pd) 50) / 2 \<le> 75 \<longrightarrow>
        tierBonus pd = 0)"
proof -
  have a: "activePunch st = Some (punchName c) \<longrightarrow>
      (\<exists>st'. handleHit st pd tHit tNext = Some st' \<and>
         onScoreCalls st' = onScoreCalls st @
           [\<lfloor>(100 + tierBonus pd + categoryBonus c)
               * (1 + real ((comboCount st + 1) div 3) / 2)\<rfloor>])"
    using handleHit_points[of st "punchName c" pd tHit tNext]
    by (auto simp add: category_bonus_of_name)
  have b: "c \<noteq> Jab \<and> c \<noteq> Cross \<longrightarrow> categoryBonus Jab < categoryBonus c \<and>
                                    categoryBonus Cross < categoryBonus c"
    by (cases c) simp_all
  have d: "isRunning st \<and> activePunch st = Some ''Jab'' \<and> comboCount st = 0 \<and>
       hitsInLevel st = 0 \<and>
       normalizePunchName detectedPunch = normalizePunchName ''Jab'' \<and>
       tNext - tHit \<le> comboResetDelay \<longrightarrow>
      (\<exists>st'. checkPunch st detectedPunch pd tHit tNext = Some st' \<and> hitsInLevel st' = 1 \<and>
         comboCount st' = 1 \<and> totalHits st' = totalHits st + 1 \<and> level st' = level st \<and>
         onScoreCalls st' = onScoreCalls st @ [100 + \<lfloor>tierBonus pd\<rfloor>])"
    using first_jab_hit by blast
  have e: "(orDefault (speedScore pd) 50 + orDefault (formScore pd) 50) / 2 \<le> 75 \<longrightarrow>
        tierBonus pd = 0"
    by (simp add: tierBonus_def Let_def)
  from a tierBonus_values b d e show ?thesis by blast
qed

lemma example_hits:
  "handleHit level3HookDrill fullScores 10 10 =
     Some \<lparr>activePunch = None, drillTimeout = None, isRunning = True, comboCount = 3,
           comboMultiplier = 3 / 2, lastHitTime = 10, level = 3, hitsInLevel = 3,
           totalHits = 23, totalMisses = 1, perfectHits = 1,
           availablePunchTypes = [''Jab'', ''Cross'', ''Left Hook'', ''Right Hook''],
           announcePending = 1, onScoreCalls = [240]\<rparr>"
  "checkPunch level1JabDrill ''jab'' noScores 10 10 =
     Some \<lparr>activePunch = None, drillTimeout = None, isRunning = True, comboCount = 1,
           comboMultiplier = 1, lastHitTime = 10, level = 1, hitsInLevel = 1, totalHits = 1,
           totalMisses = 0, perfectHits = 0, availablePunchTypes = [''Jab'', ''Cross''],
           announcePending = 1, onScoreCalls = [100]\<rparr>"
  "checkPunch level1JabDrill ''Jab'' fullScores 10 10 =
     Some \<lparr>activePunch = None, drillTimeout = None, isRunning = True, comboCount = 1,
           comboMultiplier = 1, lastHitTime = 10, level = 1, hitsInLevel = 1, totalHits = 1,
           totalMisses = 0, perfectHits = 1, availablePunchTypes = [''Jab'', ''Cross''],
           announcePending = 1, onScoreCalls = [150]\<rparr>"
  by (simp_all add: level3HookDrill_def level1JabDrill_def checkPunch_def handleHit_def
      hitPoints_def noScores_def fullScores_def orDefault_def nextChallenge_def
      hitsPerLevel_def comboResetDelay_def Let_def normalizePunchName_def toLowerCase_def
      removeSpaces_def lowerChar_def isSpace_def)

lemma example_hit_facts:
  "activePunch level3HookDrill = Some ''Left Hook''" "comboCount level3HookDrill = 2"
  "onScoreCalls level3HookDrill = []" "onScoreCalls level1JabDrill = []"
  "normalizePunchName ''jab'' = normalizePunchName ''Jab''"
  "tierBonus noScores = 0" "tierBonus fullScores = 50"
  by (simp_all add: level3HookDrill_def level1JabDrill_def tierBonus_def noScores_def
      fullScores_def orDefault_def Let_def normalizePunchName_def toLowerCase_def
      removeSpaces_def lowerChar_def isSpace_def)

text \<open>The theorem on a Left Hook with full scores that is the third hit of a combo at
  level 3 (160 points times 1.5), and on a first Jab with no scores at level 1.\<close>

theorem hit_points_witness:
  "(\<exists>st'. handleHit level3HookDrill fullScores 10 10 = Some st' \<and> onScoreCalls st' = [240])
   \<and> categoryBonus Jab < categoryBonus LeftHook
   \<and> (\<exists>st'. checkPunch level1JabDrill ''jab'' noScores 10 10 = Some st' \<and>
          hitsInLevel st' = 1 \<and> comboCount st' = 1 \<and> totalHits st' = 1 \<and>
          onScoreCalls st' = [100])
   \<and> tierBonus noScores = 0"
  using
    hit_points [where st = level3HookDrill and c = LeftHook and pd = fullScores
      and tHit = 10 and tNext = 10 and detectedPunch = "''Jab''"]
    hit_points [where st = level1JabDrill and c = Jab and pd = noScores
      and tHit = 10 and tNext = 10 and detectedPunch = "''jab''"]
  by (simp add: example_hits example_hit_facts level1JabDrill_fields comboResetDelay_def)

text \<open>
  C4 as stated fails on a first Jab at level 1 that comes with full scores (speed and
  form sub-scores 100): it is a hit with \<open>hitsInLevel = 1\<close> and \<open>comboCount = 1\<close>, and it
  awards 150 points, not 100.
\<close>

theorem hit_points_counterexample:
  "level level1JabDrill = 1 \<and> totalHits level1JabDrill = 0
   \<and> activePunch level1JabDrill = Some ''Jab''
   \<and> map_option hitsInLevel (checkPunch level1JabDrill ''Jab'' fullScores 10 10) = Some 1
   \<and> map_option comboCount (checkPunch level1JabDrill ''Jab'' fullScores 10 10) = Some 1
   \<and> map_option onScoreCalls (checkPunch level1JabDrill ''Jab'' fullScores 10 10)
       = Some [150]"
  by (simp add: example_hits level1JabDrill_fields)

section \<open>Stopping a drill\<close>

lemma stop_summary:
  "drillTimeout (snd (stop st)) = None \<and> \<not> isRunning (snd (stop st))
   \<and> sumHits (fst (stop st)) = totalHits st \<and> sumMisses (fst (stop st)) = totalMisses st
   \<and> sumLevelReached (fst (stop st)) = level st
   \<and> sumAccuracy (fst (stop st)) =
       (if totalHits st + totalMisses st > 0
        then toFixed1 (real (totalHits st) / real (totalHits st + totalMisses st) * 100)
        else 0)
   \<and> sumMaxCombo (fst (stop st)) = comboCount st"
  by (simp add: stop_def Let_def)

lemma threeHitsAndAMiss_run:
  "run level1JabDrill threeHitsAndAMiss =
     Some \<lparr>activePunch = None, drillTimeout = None, isRunning = True, comboCount = 0,
           comboMultiplier = 1, lastHitTime = 10, level = 1, hitsInLevel = 3, totalHits = 3,
           totalMisses = 1, perfectHits = 0, availablePunchTypes = [''Jab'', ''Cross''],
           announcePending = 1, onScoreCalls = [100, 100, 150]\<rparr>"
  unfolding threeHitsAndAMiss_def level1JabDrill_def
  by (simp add: jab_hit_step announce_jab_step handleHit_def hitPoints_def noScores_def
      orDefault_def nextChallenge_def hitsPerLevel_def comboResetDelay_def handleMiss_def
      resetCombo_def getCurrentReactionTime_def baseReactionTime_def
      minReactionTime_def Let_def del: step.simps(1,3))

lemma threeHitsAndAMiss_maxCombo:
  "maxComboReached level1JabDrill threeHitsAndAMiss = 3"
  unfolding threeHitsAndAMiss_def level1JabDrill_def
  by (simp add: jab_hit_step announce_jab_step handleHit_def hitPoints_def noScores_def
      orDefault_def nextChallenge_def hitsPerLevel_def comboResetDelay_def handleMiss_def
      resetCombo_def getCurrentReactionTime_def baseReactionTime_def
      minReactionTime_def Let_def del: step.simps(1,3))

text \<open>
  C7 on a session of three hits in a row and then a miss, stopped after the miss: the
  reaction timer is cancelled, the summary has 3 hits, 1 miss, accuracy 75 percent and
  level 1, and as "Max Combo" it has 0, the combo count at the time of the stop, although
  the session reached a combo of 3.
\<close>

theorem stop_reports_current_combo:
  "maxComboReached level1JabDrill threeHitsAndAMiss = 3
   \<and> map_option (\<lambda>st. fst (stop st)) (run level1JabDrill threeHitsAndAMiss) =
       Some \<lparr>sumHits = 3, sumMisses = 1, sumAccuracy = 75, sumMaxCombo = 0,
             sumLevelReached = 1\<rparr>
   \<and> map_option (\<lambda>st. drillTimeout (snd (stop st))) (run level1JabDrill threeHitsAndAMiss) =
       Some None"
  by (simp add: threeHitsAndAMiss_run threeHitsAndAMiss_maxCombo stop_def toFixed1_def Let_def)

section \<open>The combo drill\<close>

lemma comboCheckPunch_active:
  assumes "comboRunning st" "currentCombo st = Some combo"
    "stepIndex st < length (comboSequence combo)"
  shows "comboCheckPunch st detectedPunch =
           Some (if removeSpaces (toLowerCase detectedPunch) =
                    removeSpaces (toLowerCase (comboSequence combo ! stepIndex st))
                 then comboHandleHit st combo else st)"
  using assms by (simp add: comboCheckPunch_def Let_def)

lemma comboHandleHit_fields:
  "stepIndex (comboHandleHit st combo) = stepIndex st + 1"
  "currentCombo (comboHandleHit st combo) = currentCombo st"
  "comboRunning (comboHandleHit st combo) = comboRunning st"
  "stepIndex st + 1 < length (comboSequence combo) \<Longrightarrow>
     comboHandleHit st combo = st\<lparr>stepIndex := stepIndex st + 1\<rparr>"
  by (simp_all add: comboHandleHit_def Let_def)

lemma lowered_literals:
  "removeSpaces (toLowerCase ''Jab'') = ''jab''"
  "removeSpaces (toLowerCase ''Cross'') = ''cross''"
  "removeSpaces (toLowerCase ''Left Hook'') = ''lefthook''"
  using lowered_names(1,2,3) by simp_all

lemma oneTwoHook_steps:
  assumes "comboRunning st" "currentCombo st = Some oneTwoHook" "stepIndex st = 0"
  shows "comboCheckPunch st ''Jab'' = Some (st\<lparr>stepIndex := 1\<rparr>)"
    "comboCheckPunch (st\<lparr>stepIndex := 1\<rparr>) ''Left Hook'' = Some (st\<lparr>stepIndex := 1\<rparr>)"
    "comboCheckPunch (st\<lparr>stepIndex := 1\<rparr>) ''Cross'' = Some (st\<lparr>stepIndex := 2\<rparr>)"
  using assms
  by (simp_all add: comboCheckPunch_active oneTwoHook_def lowered_literals
      comboHandleHit_fields(4))

text \<open>
  Inside the sequence (the drill runs, has a current combo and its step index is less
  than the length of the sequence), \<^verbatim>\<open>checkPunch\<close> of the combo drill advances the step
  index by one, keeping the current combo, if the detected punch equals the punch expected
  at the current step (both lowercased and without spaces, which on the names of the
  punch classes is equality of the classes), and otherwise leaves the whole drill as it
  is. On the sequence Jab, Cross, Left Hook the punches Jab, Left Hook, Cross give the
  step indices 1, 1 and 2.
\<close>

lemma combo_step_inside_sequence:
  "(comboRunning st \<and> currentCombo st = Some combo \<and>
    stepIndex st < length (comboSequence combo) \<longrightarrow>
      (\<exists>st'. comboCheckPunch st detectedPunch = Some st' \<and>
         (if removeSpaces (toLowerCase detectedPunch) =
               removeSpaces (toLowerCase (comboSequence combo ! stepIndex st))
          then stepIndex st' = stepIndex st + 1 \<and> currentCombo st' = currentCombo st
          else st' = st)))
   \<and> (removeSpaces (toLowerCase (punchName a)) = removeSpaces (toLowerCase (punchName b))
        \<longleftrightarrow> punchName a = punchName b)
   \<and> (comboRunning st \<and> currentCombo st = Some oneTwoHook \<and> stepIndex st = 0 \<longrightarrow>
        comboCheckPunch st ''Jab'' = Some (st\<lparr>stepIndex := 1\<rparr>) \<and>
        comboCheckPunch (st\<lparr>stepIndex := 1\<rparr>) ''Left Hook'' = Some (st\<lparr>stepIndex := 1\<rparr>) \<and>
        comboCheckPunch (st\<lparr>stepIndex := 1\<rparr>) ''Cross'' = Some (st\<lparr>stepIndex := 2\<rparr>) \<and>
        comboCheckPunches st [''Jab'', ''Left Hook'', ''Cross''] = Some (st\<lparr>stepIndex := 2\<rparr>) \<and>
        2 < length (comboSequence oneTwoHook))"
proof -
  have a: "comboRunning st \<and> currentCombo st = Some combo \<and>
    stepIndex st < length (comboSequence combo) \<longrightarrow>
      (\<exists>st'. comboCheckPunch st detectedPunch = Some st' \<and>
         (if removeSpaces (toLowerCase detectedPunch) =
               removeSpaces (toLowerCase (comboSequence combo ! stepIndex st))
          then stepIndex st' = stepIndex st + 1 \<and> currentCombo st' = currentCombo st
          else st' = st))"
    by (simp add: comboCheckPunch_active comboHandleHit_fields)
  have b: "removeSpaces (toLowerCase (punchName a)) = removeSpaces (toLowerCase (punchName b))
        \<longleftrightarrow> punchName a = punchName b"
    by (simp only: lowered_names_inj punchName_inj)
  have c: "comboRunning st \<and> currentCombo st = Some oneTwoHook \<and> stepIndex st = 0 \<longrightarrow>
        comboCheckPunch st ''Jab'' = Some (st\<lparr>stepIndex := 1\<rparr>) \<and>
        comboCheckPunch (st\<lparr>stepIndex := 1\<rparr>) ''Left Hook'' = Some (st\<lparr>stepIndex := 1\<rparr>) \<and>
        comboCheckPunch (st\<lparr>stepIndex := 1\<rparr>) ''Cross'' = Some (st\<lparr>stepIndex := 2\<rparr>) \<and>
        comboCheckPunches st [''Jab'', ''Left Hook'', ''Cross''] = Some (st\<lparr>stepIndex := 2\<rparr>) \<and>
        2 < length (comboSequence oneTwoHook)"
  proof
    assume h: "comboRunning st \<and> currentCombo st = Some oneTwoHook \<and> stepIndex st = 0"
    note s = oneTwoHook_steps [of st]
    from h s show "comboCheckPunch st ''Jab'' = Some (st\<lparr>stepIndex := 1\<rparr>) \<and>
        comboCheckPunch (st\<lparr>stepIndex := 1\<rparr>) ''Left Hook'' = Some (st\<lparr>stepIndex := 1\<rparr>) \<and>
        comboCheckPunch (st\<lparr>stepIndex := 1\<rparr>) ''Cross'' = Some (st\<lparr>stepIndex := 2\<rparr>) \<and>
        comboCheckPunches st [''Jab'', ''Left Hook'', ''Cross''] = Some (st\<lparr>stepIndex := 2\<rparr>) \<and>
        2 < length (comboSequence oneTwoHook)"
      by (simp add: oneTwoHook_def)
  qed
  from a b c show ?thesis by blast
qed

lemma oneTwoHookDrill_fields:
  "comboRunning oneTwoHookDrill" "currentCombo oneTwoHookDrill = Some oneTwoHook"
  "stepIndex oneTwoHookDrill = 0" "oneTwoHook \<in> set COMBOS"
  "comboSequence oneTwoHook ! 0 = ''Jab''" "length (comboSequence oneTwoHook) = 3"
  by (simp_all add: oneTwoHookDrill_def oneTwoHook_def COMBOS_def)

lemma oneTwoHookDrill_drawn:
  "comboStart newComboDrill (1 / 3) = oneTwoHookDrill\<lparr>showTargetPending := 1\<rparr>"
  by (simp add: comboStart_def nextCombo_def newComboDrill_def oneTwoHookDrill_def
      oneTwoHook_def COMBOS_def Let_def)

lemma oneTwoHook_all_steps:
  "comboCheckPunch oneTwoHookDrill ''Jab'' = Some (oneTwoHookDrill\<lparr>stepIndex := 1\<rparr>)"
  "comboCheckPunch (oneTwoHookDrill\<lparr>stepIndex := 1\<rparr>) ''Left Hook''
     = Some (oneTwoHookDrill\<lparr>stepIndex := 1\<rparr>)"
  "comboCheckPunch (oneTwoHookDrill\<lparr>stepIndex := 1\<rparr>) ''Cross''
     = Some (oneTwoHookDrill\<lparr>stepIndex := 2\<rparr>)"
  "comboCheckPunch (oneTwoHookDrill\<lparr>stepIndex := 2\<rparr>) ''Left Hook''
     = Some completedOneTwoHookDrill"
  by (simp_all add: comboCheckPunch_def comboHandleHit_def oneTwoHookDrill_def
      completedOneTwoHookDrill_def oneTwoHook_def lowered_literals Let_def)

lemma completed_throws:
  "comboCheckPunch completedOneTwoHookDrill detectedPunch = None"
  by (simp add: comboCheckPunch_def completedOneTwoHookDrill_def oneTwoHook_def)

text \<open>
  C9. On the sequence Jab, Cross, Left Hook the punches Jab, Left Hook, Cross give the
  step indices 1, 1 and 2: the Left Hook is ignored, nothing else of the drill changes,
  and the sequence is not complete. But not every punch that does not match is ignored
  while the drill has a sequence: the punches Jab, Cross, Left Hook complete the combo,
  and from then until the next combo is drawn (1000 ms later) the drill is running with
  its current combo and the step index 3, where \<^verbatim>\<open>checkPunch\<close> throws a TypeError on
  every punch (\<open>None\<close>) instead of leaving the drill as it is.
\<close>

theorem combo_punch_after_completion_throws:
  "comboCheckPunches oneTwoHookDrill [''Jab'', ''Left Hook'', ''Cross'']
     = Some (oneTwoHookDrill\<lparr>stepIndex := 2\<rparr>)
   \<and> comboCheckPunches oneTwoHookDrill [''Jab'', ''Cross'', ''Left Hook'']
     = Some completedOneTwoHookDrill
   \<and> comboRunning completedOneTwoHookDrill
   \<and> currentCombo completedOneTwoHookDrill = Some oneTwoHook
   \<and> stepIndex completedOneTwoHookDrill = length (comboSequence oneTwoHook)
   \<and> comboCheckPunch completedOneTwoHookDrill ''Jab'' = None
   \<and> comboCheckPunch completedOneTwoHookDrill ''Right Hook'' = None
   \<and> comboCheckPunches oneTwoHookDrill [''Jab'', ''Cross'', ''Left Hook'', ''Jab''] = None"
proof -
  have steps:
    "comboCheckPunches oneTwoHookDrill [''Jab'', ''Left Hook'', ''Cross'']
       = Some (oneTwoHookDrill\<lparr>stepIndex := 2\<rparr>)"
    "comboCheckPunches oneTwoHookDrill [''Jab'', ''Cross'', ''Left Hook'']
       = Some completedOneTwoHookDrill"
    "comboCheckPunches oneTwoHookDrill [''Jab'', ''Cross'', ''Left Hook'', ''Jab''] = None"
    by (simp_all add: oneTwoHook_all_steps completed_throws del: One_nat_def)
  have fields: "comboRunning completedOneTwoHookDrill"
    "currentCombo completedOneTwoHookDrill = Some oneTwoHook"
    "stepIndex completedOneTwoHookDrill = length (comboSequence oneTwoHook)"
    by (simp_all add: completedOneTwoHookDrill_def oneTwoHook_def)
  from steps fields show ?thesis by (simp add: completed_throws)
qed

end
